theory Spec2Isabelle
  imports Main "HOL-Library.Word"
begin

section \<open>Literal encoding (nuitka/utils/CStrings.py)\<close>

text \<open>
  A byte payload is a list of 8-bit words; the produced C source text is a \<open>string\<close>.
  Characters that cannot be written inside an Isabelle string literal are named by
  their code.
\<close>

type_synonym byte = "8 word"

abbreviation DQUOTE :: char where "DQUOTE \<equiv> CHR 0x22"
abbreviation BACKSLASH :: char where "BACKSLASH \<equiv> CHR 0x5C"

subsection \<open>Python primitives used by the module\<close>

text \<open>The conversion \<^verbatim>\<open>'%o' % n\<close>: octal digits, no padding.\<close>

fun fmt_o :: "nat \<Rightarrow> string" where
  "fmt_o n = (if n < 8 then [char_of (48 + n)]
              else fmt_o (n div 8) @ [char_of (48 + n mod 8)])"

declare fmt_o.simps [simp del]

text \<open>The conversion \<^verbatim>\<open>'%d' % n\<close>: decimal digits, no padding.\<close>

fun fmt_d :: "nat \<Rightarrow> string" where
  "fmt_d n = (if n < 10 then [char_of (48 + n)]
              else fmt_d (n div 10) @ [char_of (48 + n mod 10)])"

declare fmt_d.simps [simp del]

text \<open>
  \<^verbatim>\<open>s.replace(old, new)\<close>: every non-overlapping occurrence of \<open>old\<close>, scanning from
  the left. For an empty \<open>old\<close> Python puts \<open>new\<close> before every character and at the end.
\<close>

function str_replace :: "string \<Rightarrow> string \<Rightarrow> string \<Rightarrow> string" where
  "str_replace old new [] = (if old = [] then new else [])"
| "str_replace old new (c # cs) =
     (if old = [] then new @ c # str_replace old new cs
      else if take (length old) (c # cs) = old
           then new @ str_replace old new (drop (length old) (c # cs))
      else c # str_replace old new cs)"
  by pat_completeness auto
termination
  by (relation "measure (\<lambda>(old, new, s). length s)") auto

declare str_replace.simps(2) [simp del]

subsection \<open>\<^verbatim>\<open>_encodePythonStringToC\<close>\<close>

text \<open>The bytes of \<^verbatim>\<open>b'\\\t\r\n"?'\<close> and of \<^verbatim>\<open>b'0123456789'\<close>.\<close>

definition escaped_bytes :: "byte list" where
  "escaped_bytes = [0x5C, 0x09, 0x0D, 0x0A, 0x22, 0x3F]"

definition digit_bytes :: "byte list" where
  "digit_bytes = [0x30, 0x31, 0x32, 0x33, 0x34, 0x35, 0x36, 0x37, 0x38, 0x39]"

text \<open>
  One round of the \<^verbatim>\<open>for c in value\<close> loop. The loop state is the pair of the
  local variables \<^verbatim>\<open>result\<close> and \<^verbatim>\<open>octal\<close>.
\<close>

definition encode_byte :: "string \<times> bool \<Rightarrow> byte \<Rightarrow> string \<times> bool" where
  "encode_byte st c =
     (let result = fst st; octal = snd st; cv = unat c in
      if c \<in> set escaped_bytes then (result @ BACKSLASH # fmt_o cv, True)
      else if 32 \<le> cv \<and> cv \<le> 127 then
        (let result = (if octal \<and> c \<in> set digit_bytes
                       then result @ [DQUOTE, CHR '' '', DQUOTE] else result)
         in (result @ [char_of cv], False))
      else (result @ BACKSLASH # fmt_o cv, True))"

definition encodePythonStringToC_inner :: "byte list \<Rightarrow> string" where
  "encodePythonStringToC_inner value =
     (let result = fst (foldl encode_byte ([], False) value);
          result = str_replace [DQUOTE, CHR '' '', DQUOTE, BACKSLASH] [BACKSLASH] result
      in DQUOTE # result @ [DQUOTE])"

subsection \<open>\<^verbatim>\<open>encodePythonStringToC\<close>\<close>

text \<open>The \<^verbatim>\<open>while len(value) > 0\<close> loop, with \<^verbatim>\<open>result\<close> as accumulator.\<close>

function encode_chunks :: "string \<Rightarrow> byte list \<Rightarrow> string" where
  "encode_chunks result value =
     (if length value > 0
      then encode_chunks (result @ '' '' @ encodePythonStringToC_inner (take 16000 value))
                         (drop 16000 value)
      else result)"
  by pat_completeness auto
termination
  by (relation "measure (\<lambda>(result, value). length value)") auto

declare encode_chunks.simps [simp del]

definition encodePythonStringToC :: "byte list \<Rightarrow> string" where
  "encodePythonStringToC value =
     encode_chunks (encodePythonStringToC_inner (take 16000 value)) (drop 16000 value)"

subsection \<open>\<^verbatim>\<open>encodePythonIdentifierToC\<close>\<close>

text \<open>
  The character class \<^verbatim>\<open>[^a-zA-Z0-9_]\<close>, and the callback \<^verbatim>\<open>r\<close> applied to the one
  character that matched. The source substitutes character by character and joins.
\<close>

definition identifier_char :: "char \<Rightarrow> bool" where
  "identifier_char c =
     (let n = (of_char c :: nat) in
      (97 \<le> n \<and> n \<le> 122) \<or> (65 \<le> n \<and> n \<le> 90) \<or> (48 \<le> n \<and> n \<le> 57) \<or> c = CHR ''_'')"

definition r :: "char \<Rightarrow> string" where
  "r c = (if c = CHR ''.'' then ''$'' else ''$$'' @ fmt_d (of_char c) @ ''$'')"

definition encodePythonIdentifierToC :: "string \<Rightarrow> string" where
  "encodePythonIdentifierToC value =
     concat (map (\<lambda>c. if identifier_char c then [c] else r c) value)"

subsection \<open>The reader of the backend: C string literals\<close>

text \<open>
  The decoder follows the C grammar for a sequence of adjacent string literals:
  literals are separated by white space and their contents are concatenated after
  escapes have been resolved; inside a literal a backslash starts an escape sequence,
  an octal escape takes one to three octal digits (as many as follow, at most three)
  and must denote a value below 256; any other character except the double quote and
  the newline stands for itself. Hexadecimal and universal escapes are not read.
\<close>

datatype lex_state = Outside | Inside | Escape | Octal nat nat

definition octal_digit :: "char \<Rightarrow> bool" where
  "octal_digit c = (48 \<le> (of_char c :: nat) \<and> (of_char c :: nat) \<le> 55)"

definition simple_escape :: "char \<Rightarrow> byte option" where
  "simple_escape c =
     (if c = CHR ''a'' then Some 7 else if c = CHR ''b'' then Some 8
      else if c = CHR ''f'' then Some 12 else if c = CHR ''n'' then Some 10
      else if c = CHR ''r'' then Some 13 else if c = CHR ''t'' then Some 9
      else if c = CHR ''v'' then Some 11 else if c = BACKSLASH then Some 0x5C
      else if c = CHR 0x27 then Some 0x27 else if c = DQUOTE then Some 0x22
      else if c = CHR ''?'' then Some 0x3F else None)"

definition inside_step :: "char \<Rightarrow> (lex_state \<times> byte list) option" where
  "inside_step c =
     (if c = DQUOTE then Some (Outside, [])
      else if c = BACKSLASH then Some (Escape, [])
      else if c = CHR 0x0A then None
      else Some (Inside, [word_of_nat (of_char c)]))"

fun c_step :: "lex_state \<Rightarrow> char \<Rightarrow> (lex_state \<times> byte list) option" where
  "c_step Outside c =
     (if c = CHR '' '' \<or> c = CHR 0x09 \<or> c = CHR 0x0A \<or> c = CHR 0x0D then Some (Outside, [])
      else if c = DQUOTE then Some (Inside, [])
      else None)"
| "c_step Inside c = inside_step c"
| "c_step Escape c =
     (if octal_digit c then Some (Octal 1 (of_char c - 48), [])
      else map_option (\<lambda>b. (Inside, [b])) (simple_escape c))"
| "c_step (Octal k v) c =
     (if k < 3 \<and> octal_digit c then Some (Octal (Suc k) (8 * v + (of_char c - 48)), [])
      else if v < 256 then
        map_option (\<lambda>(st, out). (st, word_of_nat v # out)) (inside_step c)
      else None)"

fun c_decode_from :: "lex_state \<Rightarrow> string \<Rightarrow> byte list option" where
  "c_decode_from st [] = (if st = Outside then Some [] else None)"
| "c_decode_from st (c # cs) =
     (case c_step st c of
        None \<Rightarrow> None
      | Some (st', out) \<Rightarrow> map_option ((@) out) (c_decode_from st' cs))"

definition c_decode :: "string \<Rightarrow> byte list option" where
  "c_decode s = c_decode_from Outside s"

subsection \<open>Chunks of a payload, as the specification describes them\<close>

text \<open>
  The payload is cut into its first 16000 bytes and then into runs of at most 16000
  bytes for as long as bytes remain; the literals of the chunks are written one after
  the other with one space between them.
\<close>

function rest_chunks :: "byte list \<Rightarrow> byte list list" where
  "rest_chunks value =
     (if length value > 0 then take 16000 value # rest_chunks (drop 16000 value) else [])"
  by pat_completeness auto
termination
  by (relation "measure length") auto

declare rest_chunks.simps [simp del]

definition payload_chunks :: "byte list \<Rightarrow> byte list list" where
  "payload_chunks value = take 16000 value # rest_chunks (drop 16000 value)"

fun join_with_space :: "string list \<Rightarrow> string" where
  "join_with_space [] = []"
| "join_with_space (s # ss) = s @ concat (map (\<lambda>t. CHR '' '' # t) ss)"

subsection \<open>Auxiliary notions for the proofs about the encoder\<close>

text \<open>
  \<open>encode_from octal bs\<close> is the text that the loop of \<^verbatim>\<open>_encodePythonStringToC\<close>
  appends for the bytes \<open>bs\<close> when it is entered with the flag \<open>octal\<close>;
  \<open>needs_escape\<close> names the two branches of the loop body that write an octal
  escape; \<open>no_quote_backslash\<close> says that no double quote is directly followed by a
  backslash.
\<close>

fun encode_from :: "bool \<Rightarrow> byte list \<Rightarrow> string" where
  "encode_from octal [] = []"
| "encode_from octal (c # cs) =
     fst (encode_byte ([], octal) c) @ encode_from (snd (encode_byte ([], octal) c)) cs"

definition needs_escape :: "byte \<Rightarrow> bool" where
  "needs_escape c = (c \<in> set escaped_bytes \<or> \<not> (32 \<le> unat c \<and> unat c \<le> 127))"

fun no_quote_backslash :: "string \<Rightarrow> bool" where
  "no_quote_backslash (a # b # s) = (\<not> (a = DQUOTE \<and> b = BACKSLASH) \<and> no_quote_backslash (b # s))"
| "no_quote_backslash s = True"

section \<open>Constant values (the payloads of nuitka/nodes/ConstantRefNodes.py)\<close>

text \<open>
  The Python values that can reach the node factory. Sets and dictionaries are kept as
  lists in their iteration order. A float is its 64-bit pattern. Text is kept as a
  \<open>string\<close>; no function here looks inside a character. \<open>PFrozenset\<close> is a value
  whose type the factory does not know.
\<close>

datatype pyvalue =
    PNone
  | PBool bool
  | PEllipsis
  | PInt int
  | PLong int
  | PFloat "64 word"
  | PComplex "64 word" "64 word"
  | PStr string
  | PUnicode string
  | PBytes "byte list"
  | PTuple "pyvalue list"
  | PList "pyvalue list"
  | PSet "pyvalue list"
  | PFrozenset "pyvalue list"
  | PDict "(pyvalue \<times> pyvalue) list"
  | PSlice pyvalue pyvalue pyvalue
  | PType string

datatype pytype =
    T_NoneType | T_bool | T_ellipsis | T_int | T_long | T_float | T_complex
  | T_str | T_unicode | T_bytes | T_tuple | T_list | T_set | T_frozenset | T_dict
  | T_slice | T_type

text \<open>\<^verbatim>\<open>type(v)\<close> and \<^verbatim>\<open>type(v).__name__\<close>.\<close>

fun type_of :: "pyvalue \<Rightarrow> pytype" where
  "type_of PNone = T_NoneType"
| "type_of (PBool b) = T_bool"
| "type_of PEllipsis = T_ellipsis"
| "type_of (PInt i) = T_int"
| "type_of (PLong i) = T_long"
| "type_of (PFloat f) = T_float"
| "type_of (PComplex re im) = T_complex"
| "type_of (PStr s) = T_str"
| "type_of (PUnicode s) = T_unicode"
| "type_of (PBytes bs) = T_bytes"
| "type_of (PTuple vs) = T_tuple"
| "type_of (PList vs) = T_list"
| "type_of (PSet vs) = T_set"
| "type_of (PFrozenset vs) = T_frozenset"
| "type_of (PDict kvs) = T_dict"
| "type_of (PSlice a b c) = T_slice"
| "type_of (PType n) = T_type"

fun type_name :: "pytype \<Rightarrow> string" where
  "type_name T_NoneType = ''NoneType''"
| "type_name T_bool = ''bool''"
| "type_name T_ellipsis = ''ellipsis''"
| "type_name T_int = ''int''"
| "type_name T_long = ''long''"
| "type_name T_float = ''float''"
| "type_name T_complex = ''complex''"
| "type_name T_str = ''str''"
| "type_name T_unicode = ''unicode''"
| "type_name T_bytes = ''bytes''"
| "type_name T_tuple = ''tuple''"
| "type_name T_list = ''list''"
| "type_name T_set = ''set''"
| "type_name T_frozenset = ''frozenset''"
| "type_name T_dict = ''dict''"
| "type_name T_slice = ''slice''"
| "type_name T_type = ''type''"

text \<open>The exceptions that the modelled code can raise.\<close>

datatype error = AssertionError | TypeError | KeyError | IndexError | ValueError

text \<open>\<^verbatim>\<open>len(v)\<close>: a \<^verbatim>\<open>TypeError\<close> for a value without a length.\<close>

fun py_len :: "pyvalue \<Rightarrow> error + nat" where
  "py_len (PStr s) = Inr (length s)"
| "py_len (PUnicode s) = Inr (length s)"
| "py_len (PBytes bs) = Inr (length bs)"
| "py_len (PTuple vs) = Inr (length vs)"
| "py_len (PList vs) = Inr (length vs)"
| "py_len (PSet vs) = Inr (length vs)"
| "py_len (PFrozenset vs) = Inr (length vs)"
| "py_len (PDict kvs) = Inr (length kvs)"
| "py_len v = Inl TypeError"

text \<open>
  \<^verbatim>\<open>xs[i]\<close> on a sequence of length \<open>n\<close>: a negative index counts from the end, an
  index outside \<open>-n .. n-1\<close> raises \<^verbatim>\<open>IndexError\<close>.
\<close>

definition seq_index :: "'a list \<Rightarrow> int \<Rightarrow> error + 'a" where
  "seq_index xs i =
     (if 0 \<le> i \<and> i < int (length xs) then Inr (xs ! nat i)
      else if i < 0 \<and> - int (length xs) \<le> i then Inr (xs ! nat (int (length xs) + i))
      else Inl IndexError)"

text \<open>
  The number that a float stands for, read off its 64 bits (sign, 11 bits of exponent,
  52 bits of fraction), compared with an integer. An infinity or a NaN equals no
  integer; both zeros equal 0. The comparison is exact: the float is \<open>m \<cdot> 2\<^sup>k\<close> for the
  signed significand \<open>m\<close> and the exponent \<open>k\<close>.
\<close>

definition float_equals_int :: "64 word \<Rightarrow> int \<Rightarrow> bool" where
  "float_equals_int w i =
     (let negative = (2 ^ 63 \<le> uint w);
          ex = (uint w div 2 ^ 52) mod 2 ^ 11;
          fraction = uint w mod 2 ^ 52;
          significand = (if ex = 0 then fraction else 2 ^ 52 + fraction);
          m = (if negative then - significand else significand);
          k = (if ex = 0 then - 1074 else ex - 1075)
      in if ex = 2047 then False
         else if 0 \<le> k then m * 2 ^ nat k = i
         else m = i * 2 ^ nat (- k))"

text \<open>
  A dictionary key equal to the integer \<open>i\<close>. Python compares keys by value (and equal
  numbers have equal hashes), so the int, the long, the bool, the float and the complex
  number of that value are the same key; a key that is not a number is a different key.
\<close>

fun key_equals_int :: "pyvalue \<Rightarrow> int \<Rightarrow> bool" where
  "key_equals_int (PInt k) i = (k = i)"
| "key_equals_int (PLong k) i = (k = i)"
| "key_equals_int (PBool b) i = ((if b then 1 else 0) = i)"
| "key_equals_int (PFloat f) i = float_equals_int f i"
| "key_equals_int (PComplex re im) i = (float_equals_int im 0 \<and> float_equals_int re i)"
| "key_equals_int k i = False"

fun dict_lookup_int :: "(pyvalue \<times> pyvalue) list \<Rightarrow> int \<Rightarrow> error + pyvalue" where
  "dict_lookup_int [] i = Inl KeyError"
| "dict_lookup_int ((k, v) # kvs) i = (if key_equals_int k i then Inr v else dict_lookup_int kvs i)"

text \<open>
  \<^verbatim>\<open>v[i]\<close> for an integer \<open>i\<close>: a character of a string, an integer out of a
  \<^verbatim>\<open>bytes\<close> object, an element of a tuple or list, the value stored under the key
  \<open>i\<close> of a dictionary; a \<^verbatim>\<open>TypeError\<close> for a set and for every value that has no
  subscript.
\<close>

fun py_getitem :: "pyvalue \<Rightarrow> int \<Rightarrow> error + pyvalue" where
  "py_getitem (PStr s) i = map_sum id (\<lambda>c. PStr [c]) (seq_index s i)"
| "py_getitem (PUnicode s) i = map_sum id (\<lambda>c. PUnicode [c]) (seq_index s i)"
| "py_getitem (PBytes bs) i = map_sum id (\<lambda>b. PInt (uint b)) (seq_index bs i)"
| "py_getitem (PTuple vs) i = seq_index vs i"
| "py_getitem (PList vs) i = seq_index vs i"
| "py_getitem (PDict kvs) i = dict_lookup_int kvs i"
| "py_getitem v i = Inl TypeError"

text \<open>
  The values that \<^verbatim>\<open>for x in v\<close> yields: the characters of a string, the integers of a
  \<^verbatim>\<open>bytes\<close> object, the elements of a container, the keys of a dictionary.
\<close>

fun py_iter :: "pyvalue \<Rightarrow> error + pyvalue list" where
  "py_iter (PStr s) = Inr (map (\<lambda>c. PStr [c]) s)"
| "py_iter (PUnicode s) = Inr (map (\<lambda>c. PUnicode [c]) s)"
| "py_iter (PBytes bs) = Inr (map (\<lambda>b. PInt (uint b)) bs)"
| "py_iter (PTuple vs) = Inr vs"
| "py_iter (PList vs) = Inr vs"
| "py_iter (PSet vs) = Inr vs"
| "py_iter (PFrozenset vs) = Inr vs"
| "py_iter (PDict kvs) = Inr (map fst kvs)"
| "py_iter v = Inl TypeError"

text \<open>\<^verbatim>\<open>tuple(v)\<close>.\<close>

definition py_tuple :: "pyvalue \<Rightarrow> error + pyvalue" where
  "py_tuple v = map_sum id PTuple (py_iter v)"

text \<open>\<^verbatim>\<open>iterItems(d)\<close> of \<^verbatim>\<open>nuitka.__past__\<close>: the items of a dictionary, in its order.\<close>

fun iterItems :: "pyvalue \<Rightarrow> error + (pyvalue \<times> pyvalue) list" where
  "iterItems (PDict kvs) = Inr kvs"
| "iterItems v = Inl TypeError"

text \<open>
  \<^verbatim>\<open>xs.append(*args)\<close>: the method takes exactly one argument and raises
  \<^verbatim>\<open>TypeError\<close> for any other number of them.
\<close>

fun list_append :: "'a list \<Rightarrow> 'a list \<Rightarrow> error + 'a list" where
  "list_append xs [x] = Inr (xs @ [x])"
| "list_append xs args = Inl TypeError"

text \<open>The truth value of a dictionary in \<^verbatim>\<open>if constant:\<close>.\<close>

fun py_truth_dict :: "pyvalue \<Rightarrow> bool" where
  "py_truth_dict (PDict kvs) = (kvs \<noteq> [])"
| "py_truth_dict v = True"

section \<open>Nodes\<close>

text \<open>
  A source reference is known only through \<^verbatim>\<open>getAsString\<close>. A constant node carries
  the attributes that \<^verbatim>\<open>ExpressionConstantRefBase.__init__\<close> sets (\<open>constant_value\<close> is
  the attribute \<^verbatim>\<open>constant\<close>), and the \<^verbatim>\<open>kind\<close> of its class. The other nodes are the two constructor calls treated here, the two nodes
  that a rewrite can put in place of a call, and any further expression, which is
  opaque.
\<close>

datatype source_ref = SourceCodeReference (getAsString: string)

datatype node_kind =
    EXPRESSION_CONSTANT_NONE_REF | EXPRESSION_CONSTANT_TRUE_REF
  | EXPRESSION_CONSTANT_FALSE_REF | EXPRESSION_CONSTANT_ELLIPSIS_REF
  | EXPRESSION_CONSTANT_DICT_REF | EXPRESSION_CONSTANT_DICT_EMPTY_REF
  | EXPRESSION_CONSTANT_TUPLE_REF | EXPRESSION_CONSTANT_LIST_REF
  | EXPRESSION_CONSTANT_SET_REF | EXPRESSION_CONSTANT_INT_REF
  | EXPRESSION_CONSTANT_LONG_REF | EXPRESSION_CONSTANT_STR_REF
  | EXPRESSION_CONSTANT_UNICODE_REF | EXPRESSION_CONSTANT_BYTES_REF
  | EXPRESSION_CONSTANT_FLOAT_REF | EXPRESSION_CONSTANT_COMPLEX_REF
  | EXPRESSION_CONSTANT_SLICE_REF | EXPRESSION_CONSTANT_TYPE_REF

record constant_ref =
  kind :: node_kind
  constant_value :: pyvalue
  source_ref :: source_ref
  user_provided :: bool

datatype builtin = builtin_int | builtin_long

datatype node =
    ExpressionConstantRef constant_ref
  | ExpressionBuiltinIntLong builtin "node option" "node option" source_ref
  | ExpressionBuiltinBytearray node source_ref
  | ExpressionRaiseException string string source_ref
  | ExpressionSideEffects "node list" node source_ref
  | ExpressionOther nat source_ref

fun getSourceReference :: "node \<Rightarrow> source_ref" where
  "getSourceReference (ExpressionConstantRef c) = source_ref c"
| "getSourceReference (ExpressionBuiltinIntLong b v ba sr) = sr"
| "getSourceReference (ExpressionBuiltinBytearray v sr) = sr"
| "getSourceReference (ExpressionRaiseException t v sr) = sr"
| "getSourceReference (ExpressionSideEffects es e sr) = sr"
| "getSourceReference (ExpressionOther n sr) = sr"

text \<open>The change tags of the optimization protocol; \<^verbatim>\<open>None\<close> is the absence of a change.\<close>

datatype change_tag = new_constant | new_expression | new_raise

type_synonym compute_result = "node \<times> change_tag option \<times> string option"

text \<open>
  The diagnostic written by \<^verbatim>\<open>logging.warning\<close> in the constructor, with the three
  values that fill its format string.
\<close>

datatype diagnostic = Too_large_constant pytype nat string

text \<open>
  The data-flow collection is owned outside this code. Of its state, only the sequence of
  exception exits reported to it is kept.
\<close>

record constraint_collection =
  raise_exits :: "error list"

text \<open>
  Modelled from the spec: \<^verbatim>\<open>onExceptionRaiseExit\<close> (the collection's
  "notify that a fault may occur") is a method of the collection, whose class is not
  among the sources; it records the fault kind.
\<close>

definition onExceptionRaiseExit :: "constraint_collection \<Rightarrow> error \<Rightarrow> constraint_collection" where
  "onExceptionRaiseExit collection e = collection\<lparr>raise_exits := raise_exits collection @ [e]\<rparr>"

text \<open>
  What the modules under verification import from the rest of the compiler and from
  the hosting Python: the version, \<^verbatim>\<open>Options.isDebug\<close>, the predicates of
  \<^verbatim>\<open>nuitka.Constants\<close>, the answer of the runtime to \<^verbatim>\<open>int(base = 2)\<close> and
  \<^verbatim>\<open>long(base = 2)\<close>, and the helpers of \<^verbatim>\<open>NodeMakingHelpers\<close>, of \<^verbatim>\<open>NodeBases\<close> and of
  the collection. They are parameters of the model.
\<close>

record env =
  python_version :: nat
  isDebug :: bool
  isConstant :: "pyvalue \<Rightarrow> bool"
  isIterableConstant :: "pyvalue \<Rightarrow> bool"
  getConstantIterationLength :: "pyvalue \<Rightarrow> int"
  call_base_2 :: "builtin \<Rightarrow> error + pyvalue"
  makeRaiseExceptionReplacementExpression :: "node \<Rightarrow> string \<Rightarrow> string \<Rightarrow> node"
  wrapExpressionWithSideEffects :: "node \<Rightarrow> node \<Rightarrow> node list \<Rightarrow> node"
  extractPreCallSideEffects :: "node \<Rightarrow> node list"
  getCompileTimeComputationResult ::
    "constraint_collection \<Rightarrow> node \<Rightarrow> (error + pyvalue) \<Rightarrow> string
       \<Rightarrow> compute_result \<times> constraint_collection"
  computeBuiltinSpec ::
    "constraint_collection \<Rightarrow> node \<Rightarrow> node list \<Rightarrow> compute_result \<times> constraint_collection"

text \<open>
  The literal \<^verbatim>\<open>b""\<close> with content \<open>bs\<close>: before Python 3, \<^verbatim>\<open>bytes\<close> is \<^verbatim>\<open>str\<close>.
\<close>

definition bytes_literal :: "env \<Rightarrow> byte list \<Rightarrow> pyvalue" where
  "bytes_literal e bs =
     (if python_version e < 300 then PStr (map (\<lambda>b. char_of (unat b)) bs) else PBytes bs)"

section \<open>Constant nodes (nuitka/nodes/ConstantRefNodes.py)\<close>

subsection \<open>\<^verbatim>\<open>ExpressionConstantRefBase.__init__\<close>\<close>

text \<open>
  The constructor returns the node and the log of diagnostics; the failed assertion
  is the error. \<^verbatim>\<open>len\<close> raising \<^verbatim>\<open>TypeError\<close> is caught by the source and skips the
  check.
\<close>

definition ExpressionConstantRefBase_init ::
  "env \<Rightarrow> node_kind \<Rightarrow> pyvalue \<Rightarrow> source_ref \<Rightarrow> bool \<Rightarrow> diagnostic list
     \<Rightarrow> error + (constant_ref \<times> diagnostic list)" where
  "ExpressionConstantRefBase_init e k c sr up log =
     (if \<not> isConstant e c then Inl AssertionError
      else
        let self = \<lparr>kind = k, constant_value = c, source_ref = sr, user_provided = up\<rparr> in
        if \<not> up \<and> isDebug e then
          (case py_len c of
             Inl err \<Rightarrow> Inr (self, log)
           | Inr sz \<Rightarrow>
               let max_size = (if type_of c = T_str \<or> type_of c = T_unicode then 1000 else 256)
               in if sz > max_size
                  then Inr (self, log @ [Too_large_constant (type_of c) sz (getAsString sr)])
                  else Inr (self, log))
        else Inr (self, log))"

subsection \<open>\<^verbatim>\<open>makeConstantRefNode\<close>\<close>

text \<open>
  The factory: the four identity tests, then the type tests in the order of the
  source. The classes for \<^verbatim>\<open>None\<close>, \<^verbatim>\<open>True\<close>, \<^verbatim>\<open>False\<close>, \<^verbatim>\<open>Ellipsis\<close> and the
  empty dictionary pass their own constant to the base constructor.
\<close>

definition the_empty_dict :: pyvalue where
  "the_empty_dict = PDict []"

definition makeConstantRefNode ::
  "env \<Rightarrow> pyvalue \<Rightarrow> source_ref \<Rightarrow> bool \<Rightarrow> diagnostic list
     \<Rightarrow> error + (constant_ref \<times> diagnostic list)" where
  "makeConstantRefNode e c sr up log =
     (if c = PNone then
        ExpressionConstantRefBase_init e EXPRESSION_CONSTANT_NONE_REF PNone sr up log
      else if c = PBool True then
        ExpressionConstantRefBase_init e EXPRESSION_CONSTANT_TRUE_REF (PBool True) sr up log
      else if c = PBool False then
        ExpressionConstantRefBase_init e EXPRESSION_CONSTANT_FALSE_REF (PBool False) sr up log
      else if c = PEllipsis then
        ExpressionConstantRefBase_init e EXPRESSION_CONSTANT_ELLIPSIS_REF PEllipsis sr up log
      else
        let constant_type = type_of c in
        if constant_type = T_int then
          ExpressionConstantRefBase_init e EXPRESSION_CONSTANT_INT_REF c sr up log
        else if constant_type = T_str then
          ExpressionConstantRefBase_init e EXPRESSION_CONSTANT_STR_REF c sr up log
        else if constant_type = T_float then
          ExpressionConstantRefBase_init e EXPRESSION_CONSTANT_FLOAT_REF c sr up log
        else if constant_type = T_long then
          ExpressionConstantRefBase_init e EXPRESSION_CONSTANT_LONG_REF c sr up log
        else if constant_type = T_unicode then
          ExpressionConstantRefBase_init e EXPRESSION_CONSTANT_UNICODE_REF c sr up log
        else if constant_type = T_bytes then
          ExpressionConstantRefBase_init e EXPRESSION_CONSTANT_BYTES_REF c sr up log
        else if constant_type = T_dict then
          (if py_truth_dict c then
             ExpressionConstantRefBase_init e EXPRESSION_CONSTANT_DICT_REF c sr up log
           else
             ExpressionConstantRefBase_init e EXPRESSION_CONSTANT_DICT_EMPTY_REF
               the_empty_dict sr up log)
        else if constant_type = T_tuple then
          ExpressionConstantRefBase_init e EXPRESSION_CONSTANT_TUPLE_REF c sr up log
        else if constant_type = T_list then
          ExpressionConstantRefBase_init e EXPRESSION_CONSTANT_LIST_REF c sr up log
        else if constant_type = T_set then
          ExpressionConstantRefBase_init e EXPRESSION_CONSTANT_SET_REF c sr up log
        else if constant_type = T_complex then
          ExpressionConstantRefBase_init e EXPRESSION_CONSTANT_COMPLEX_REF c sr up log
        else if constant_type = T_slice then
          ExpressionConstantRefBase_init e EXPRESSION_CONSTANT_SLICE_REF c sr up log
        else if constant_type = T_type then
          ExpressionConstantRefBase_init e EXPRESSION_CONSTANT_TYPE_REF c sr up log
        else Inl AssertionError)"

subsection \<open>Methods of \<^verbatim>\<open>ExpressionConstantRefBase\<close>\<close>

definition computeExpression :: "constant_ref \<Rightarrow> constraint_collection \<Rightarrow> compute_result" where
  "computeExpression self collection = (ExpressionConstantRef self, None, None)"

definition computeExpressionCall ::
  "env \<Rightarrow> constant_ref \<Rightarrow> node \<Rightarrow> node list \<Rightarrow> node list \<Rightarrow> constraint_collection
     \<Rightarrow> compute_result \<times> constraint_collection" where
  "computeExpressionCall e self call_node call_args call_kw collection =
     (let new_node =
            wrapExpressionWithSideEffects e
              (makeRaiseExceptionReplacementExpression e (ExpressionConstantRef self)
                 ''TypeError''
                 (CHR 0x27 # type_name (type_of (constant_value self))
                    @ CHR 0x27 # '' object is not callable''))
              call_node
              (extractPreCallSideEffects e call_node);
          collection = onExceptionRaiseExit collection TypeError
      in ((new_node, Some new_raise,
           Some ''Predicted call of constant value to exception raise.''), collection))"

definition getIterationValue ::
  "env \<Rightarrow> constant_ref \<Rightarrow> int \<Rightarrow> diagnostic list \<Rightarrow> error + (constant_ref \<times> diagnostic list)" where
  "getIterationValue e self count log =
     (case py_len (constant_value self) of
        Inl err \<Rightarrow> Inl err
      | Inr n \<Rightarrow>
          if \<not> count < int n then Inl AssertionError
          else
            (case py_getitem (constant_value self) count of
               Inl err \<Rightarrow> Inl err
             | Inr v \<Rightarrow> makeConstantRefNode e v (source_ref self) False log))"

text \<open>
  \<^verbatim>\<open>isKnownToBeIterable(count)\<close>, where \<open>None\<close> asks for any length, and
  \<^verbatim>\<open>canPredictIterationValues\<close>.
\<close>

definition isKnownToBeIterable :: "env \<Rightarrow> constant_ref \<Rightarrow> int option \<Rightarrow> bool" where
  "isKnownToBeIterable e self count =
     (if isIterableConstant e (constant_value self) then
        (case count of
           None \<Rightarrow> True
         | Some n \<Rightarrow> getConstantIterationLength e (constant_value self) = n)
      else False)"

definition canPredictIterationValues :: "env \<Rightarrow> constant_ref \<Rightarrow> bool" where
  "canPredictIterationValues e self = isKnownToBeIterable e self None"

text \<open>
  \<^verbatim>\<open>getIterationValues\<close>: the tuple of the nodes of the values that \<^verbatim>\<open>for value in
  self.constant\<close> yields, each with the \<^verbatim>\<open>user_provided\<close> flag of the constant.
\<close>

fun getIterationValues_loop ::
  "env \<Rightarrow> source_ref \<Rightarrow> bool \<Rightarrow> pyvalue list \<Rightarrow> constant_ref list \<Rightarrow> diagnostic list
     \<Rightarrow> error + (constant_ref list \<times> diagnostic list)" where
  "getIterationValues_loop e sr up [] nodes log = Inr (nodes, log)"
| "getIterationValues_loop e sr up (v # vs) nodes log =
     (case makeConstantRefNode e v sr up log of
        Inl err \<Rightarrow> Inl err
      | Inr (value_node, log1) \<Rightarrow> getIterationValues_loop e sr up vs (nodes @ [value_node]) log1)"

definition getIterationValues ::
  "env \<Rightarrow> constant_ref \<Rightarrow> diagnostic list \<Rightarrow> error + (constant_ref list \<times> diagnostic list)" where
  "getIterationValues e self log =
     (case py_iter (constant_value self) of
        Inl err \<Rightarrow> Inl err
      | Inr vs \<Rightarrow> getIterationValues_loop e (source_ref self) (user_provided self) vs [] log)"

definition isMapping :: "constant_ref \<Rightarrow> bool" where
  "isMapping self = (type_of (constant_value self) = T_dict)"

text \<open>
  The loop of \<^verbatim>\<open>getMappingPairs\<close>: both nodes are built, then \<^verbatim>\<open>append\<close> is called
  with the two of them as its arguments.
\<close>

fun getMappingPairs_loop ::
  "env \<Rightarrow> source_ref \<Rightarrow> (pyvalue \<times> pyvalue) list \<Rightarrow> constant_ref list \<Rightarrow> diagnostic list
     \<Rightarrow> error + (constant_ref list \<times> diagnostic list)" where
  "getMappingPairs_loop e sr [] pairs log = Inr (pairs, log)"
| "getMappingPairs_loop e sr ((key, val) # items) pairs log =
     (case makeConstantRefNode e key sr False log of
        Inl err \<Rightarrow> Inl err
      | Inr (key_node, log1) \<Rightarrow>
          (case makeConstantRefNode e val sr False log1 of
             Inl err \<Rightarrow> Inl err
           | Inr (value_node, log2) \<Rightarrow>
               (case list_append pairs [key_node, value_node] of
                  Inl err \<Rightarrow> Inl err
                | Inr pairs' \<Rightarrow> getMappingPairs_loop e sr items pairs' log2)))"

definition getMappingPairs ::
  "env \<Rightarrow> constant_ref \<Rightarrow> diagnostic list \<Rightarrow> error + (constant_ref list \<times> diagnostic list)" where
  "getMappingPairs e self log =
     (if \<not> isMapping self then Inl AssertionError
      else
        (case iterItems (constant_value self) of
           Inl err \<Rightarrow> Inl err
         | Inr items \<Rightarrow> getMappingPairs_loop e (source_ref self) items [] log))"

text \<open>
  The loop of \<^verbatim>\<open>getMappingStringKeyPairs\<close>: \<^verbatim>\<open>append\<close> is called with one argument,
  the pair of the key itself and the node of the value.
\<close>

fun getMappingStringKeyPairs_loop ::
  "env \<Rightarrow> source_ref \<Rightarrow> (pyvalue \<times> pyvalue) list \<Rightarrow> (pyvalue \<times> constant_ref) list
     \<Rightarrow> diagnostic list \<Rightarrow> error + ((pyvalue \<times> constant_ref) list \<times> diagnostic list)" where
  "getMappingStringKeyPairs_loop e sr [] pairs log = Inr (pairs, log)"
| "getMappingStringKeyPairs_loop e sr ((key, val) # items) pairs log =
     (case makeConstantRefNode e val sr False log of
        Inl err \<Rightarrow> Inl err
      | Inr (value_node, log1) \<Rightarrow>
          (case list_append pairs [(key, value_node)] of
             Inl err \<Rightarrow> Inl err
           | Inr pairs' \<Rightarrow> getMappingStringKeyPairs_loop e sr items pairs' log1))"

definition getMappingStringKeyPairs ::
  "env \<Rightarrow> constant_ref \<Rightarrow> diagnostic list
     \<Rightarrow> error + ((pyvalue \<times> constant_ref) list \<times> diagnostic list)" where
  "getMappingStringKeyPairs e self log =
     (if \<not> isMapping self then Inl AssertionError
      else
        (case iterItems (constant_value self) of
           Inl err \<Rightarrow> Inl err
         | Inr items \<Rightarrow> getMappingStringKeyPairs_loop e (source_ref self) items [] log))"

definition mayHaveSideEffects :: "constant_ref \<Rightarrow> bool" where
  "mayHaveSideEffects self = False"

definition extractSideEffects :: "constant_ref \<Rightarrow> node list" where
  "extractSideEffects self = []"

text \<open>
  \<^verbatim>\<open>computeExpressionIter1\<close> changes three things: the log of diagnostics (through the
  factory), the collection, and the tree. Of the tree, the state keeps the child slot of
  the parent in which \<^verbatim>\<open>self\<close> sits, that is, the iteration target.
\<close>

record rewrite_state =
  diagnostics :: "diagnostic list"
  collection_of :: constraint_collection
  parent_slot :: node

text \<open>
  Modelled from the spec: \<^verbatim>\<open>replaceWith\<close> is a method of \<^verbatim>\<open>NodeBase\<close>, which is not
  among the sources; node replacement is a single slot swap at the parent.
\<close>

definition replaceWith :: "rewrite_state \<Rightarrow> node \<Rightarrow> rewrite_state" where
  "replaceWith st new_node = st\<lparr>parent_slot := new_node\<rparr>"

definition computeExpressionIter1 ::
  "env \<Rightarrow> constant_ref \<Rightarrow> node \<Rightarrow> rewrite_state \<Rightarrow> error + (compute_result \<times> rewrite_state)" where
  "computeExpressionIter1 e self iter_node st =
     (let t = type_of (constant_value self) in
      if t = T_list \<or> t = T_set \<or> t = T_frozenset \<or> t = T_dict then
        (case py_tuple (constant_value self) of
           Inl err \<Rightarrow> Inl err
         | Inr tup \<Rightarrow>
             (case makeConstantRefNode e tup (source_ref self) (user_provided self)
                     (diagnostics st) of
                Inl err \<Rightarrow> Inl err
              | Inr (result, log) \<Rightarrow>
                  Inr ((iter_node, Some new_constant,
                        Some (''Iteration over constant '' @ type_name t @ '' changed to tuple.'')),
                       replaceWith (st\<lparr>diagnostics := log\<rparr>) (ExpressionConstantRef result))))
      else
        (let st = (if \<not> isIterableConstant e (constant_value self)
                   then st\<lparr>collection_of := onExceptionRaiseExit (collection_of st) TypeError\<rparr>
                   else st)
         in Inr ((iter_node, None, None), st)))"

section \<open>Constructor calls (nuitka/nodes/BuiltinTypeNodes.py)\<close>

subsection \<open>\<^verbatim>\<open>ExpressionBuiltinIntLongBase\<close>\<close>

text \<open>
  The class attribute \<^verbatim>\<open>base_only_value\<close> is computed when the class is created, by
  trying \<^verbatim>\<open>int(base = 2)\<close>: false when the call raises, true when it returns.
\<close>

definition base_only_value :: "env \<Rightarrow> bool" where
  "base_only_value e = (case call_base_2 e builtin_int of Inl err \<Rightarrow> False | Inr v \<Rightarrow> True)"

fun builtin_name :: "builtin \<Rightarrow> string" where
  "builtin_name builtin_int = ''int''"
| "builtin_name builtin_long = ''long''"

text \<open>
  Modelled from the spec: \<^verbatim>\<open>makeConstantReplacementNode\<close> belongs to
  \<^verbatim>\<open>NodeMakingHelpers\<close>, which is not among the sources. A constant that takes the place
  of a node is synthesized by the optimizer: it is built by the factory at the source
  reference of that node and is not user provided.
\<close>

definition makeConstantReplacementNode ::
  "env \<Rightarrow> pyvalue \<Rightarrow> source_ref \<Rightarrow> diagnostic list \<Rightarrow> error + (constant_ref \<times> diagnostic list)" where
  "makeConstantReplacementNode e c node_source_ref log = makeConstantRefNode e c node_source_ref False log"

definition ExpressionBuiltinIntLongBase_init ::
  "env \<Rightarrow> builtin \<Rightarrow> node option \<Rightarrow> node option \<Rightarrow> source_ref \<Rightarrow> diagnostic list
     \<Rightarrow> error + (node \<times> diagnostic list)" where
  "ExpressionBuiltinIntLongBase_init e b val base sr log =
     (if val = None \<and> base_only_value e then
        (case makeConstantReplacementNode e (PStr ''0'') sr log of
           Inl err \<Rightarrow> Inl err
         | Inr (zero, log') \<Rightarrow>
             Inr (ExpressionBuiltinIntLong b (Some (ExpressionConstantRef zero)) base sr, log'))
      else Inr (ExpressionBuiltinIntLong b val base sr, log))"

text \<open>
  \<^verbatim>\<open>computeExpression\<close> of the node \<open>ExpressionBuiltinIntLong b val base sr\<close>. The
  computation handed to the collection is \<^verbatim>\<open>self.builtin(base = 2)\<close>.
\<close>

definition ExpressionBuiltinIntLongBase_computeExpression ::
  "env \<Rightarrow> builtin \<Rightarrow> node option \<Rightarrow> node option \<Rightarrow> source_ref \<Rightarrow> constraint_collection
     \<Rightarrow> compute_result \<times> constraint_collection" where
  "ExpressionBuiltinIntLongBase_computeExpression e b val base sr collection =
     (let self = ExpressionBuiltinIntLong b val base sr in
      case val of
        None \<Rightarrow>
          if base \<noteq> None \<and> \<not> base_only_value e then
            getCompileTimeComputationResult e collection self (call_base_2 e b)
              (builtin_name b @ '' built-in call with only base argument'')
          else computeBuiltinSpec e collection self []
      | Some v \<Rightarrow>
          (case base of
             None \<Rightarrow> computeBuiltinSpec e collection self [v]
           | Some ba \<Rightarrow> computeBuiltinSpec e collection self [v, ba]))"

subsection \<open>\<^verbatim>\<open>ExpressionBuiltinBytearray\<close>\<close>

definition ExpressionBuiltinBytearray_init ::
  "env \<Rightarrow> node option \<Rightarrow> source_ref \<Rightarrow> diagnostic list \<Rightarrow> error + (node \<times> diagnostic list)" where
  "ExpressionBuiltinBytearray_init e val sr log =
     (case val of
        None \<Rightarrow>
          (case makeConstantRefNode e (bytes_literal e []) sr False log of
             Inl err \<Rightarrow> Inl err
           | Inr (empty_bytes, log') \<Rightarrow>
               Inr (ExpressionBuiltinBytearray (ExpressionConstantRef empty_bytes) sr, log'))
      | Some v \<Rightarrow> Inr (ExpressionBuiltinBytearray v sr, log))"

definition ExpressionBuiltinBytearray_computeExpression ::
  "node \<Rightarrow> source_ref \<Rightarrow> constraint_collection \<Rightarrow> compute_result" where
  "ExpressionBuiltinBytearray_computeExpression val sr collection =
     (ExpressionBuiltinBytearray val sr, None, None)"

section \<open>A reference environment\<close>

text \<open>
  The environment used to run the model on concrete inputs. It stands for a Python 2.7
  host in debug mode, where \<^verbatim>\<open>int(base = 2)\<close> raises \<^verbatim>\<open>TypeError\<close>.
\<close>

text \<open>
  Modelled from the spec: \<^verbatim>\<open>isConstant\<close> of \<^verbatim>\<open>nuitka.Constants\<close> is not among the
  sources. A value is a constant when its kind is in the closed set of kinds of the
  data model (none, true, false, ellipsis, int, big-int, float, complex, the string
  kinds, tuple, list, set, mapping, slice, type reference) and, for a tuple, a list or a
  mapping, when its parts are constants.
\<close>

fun spec_isConstant :: "pyvalue \<Rightarrow> bool" where
  "spec_isConstant (PTuple vs) = list_all spec_isConstant vs"
| "spec_isConstant (PList vs) = list_all spec_isConstant vs"
| "spec_isConstant (PDict kvs) =
     list_all (\<lambda>kv. spec_isConstant (fst kv) \<and> spec_isConstant (snd kv)) kvs"
| "spec_isConstant (PFrozenset vs) = False"
| "spec_isConstant v = True"

text \<open>
  Modelled from the spec: \<^verbatim>\<open>isIterableConstant\<close> of \<^verbatim>\<open>nuitka.Constants\<close> is not among
  the sources. The iterable kinds are the string kinds and the containers.
\<close>

definition spec_isIterableConstant :: "pyvalue \<Rightarrow> bool" where
  "spec_isIterableConstant v =
     (case py_iter v of Inl err \<Rightarrow> False | Inr vs \<Rightarrow> True)"

text \<open>
  Modelled from the spec: the helpers of \<^verbatim>\<open>NodeMakingHelpers\<close> are not among the
  sources. A deferred raise carries the fault kind and its message at the place of the
  expression it stands for; a replacement carries the side effects handed to it; a node
  that is not a constant is kept whole as its own side effect, a constant has none.
\<close>

definition spec_makeRaiseExceptionReplacementExpression :: "node \<Rightarrow> string \<Rightarrow> string \<Rightarrow> node" where
  "spec_makeRaiseExceptionReplacementExpression expression exception_type exception_value =
     ExpressionRaiseException exception_type exception_value (getSourceReference expression)"

definition spec_wrapExpressionWithSideEffects :: "node \<Rightarrow> node \<Rightarrow> node list \<Rightarrow> node" where
  "spec_wrapExpressionWithSideEffects new_node old_node side_effects =
     (if side_effects = [] then new_node
      else ExpressionSideEffects side_effects new_node (getSourceReference old_node))"

fun spec_side_effects :: "node \<Rightarrow> node list" where
  "spec_side_effects (ExpressionConstantRef c) = extractSideEffects c"
| "spec_side_effects n = [n]"

fun operands :: "node \<Rightarrow> node list" where
  "operands (ExpressionBuiltinIntLong b val base sr) =
     (case val of None \<Rightarrow> [] | Some v \<Rightarrow> [v]) @ (case base of None \<Rightarrow> [] | Some ba \<Rightarrow> [ba])"
| "operands (ExpressionBuiltinBytearray v sr) = [v]"
| "operands n = []"

fun error_name :: "error \<Rightarrow> string" where
  "error_name AssertionError = ''AssertionError''"
| "error_name TypeError = ''TypeError''"
| "error_name KeyError = ''KeyError''"
| "error_name IndexError = ''IndexError''"
| "error_name ValueError = ''ValueError''"

text \<open>
  Modelled from the spec: the compile-time evaluation helper of the collection is not
  among the sources. It classifies the outcome of the computation: a value becomes a
  new constant node with tag \<open>new_constant\<close>; a fault becomes a deferred raise of that
  fault kind, with the side effects of the operands, tag \<open>new_raise\<close>, and the
  collection is told that the fault may occur. A value that the factory refuses leaves
  the node as it is.
\<close>

definition spec_getCompileTimeComputationResult ::
  "env \<Rightarrow> constraint_collection \<Rightarrow> node \<Rightarrow> (error + pyvalue) \<Rightarrow> string
     \<Rightarrow> compute_result \<times> constraint_collection" where
  "spec_getCompileTimeComputationResult e collection n computation description =
     (case computation of
        Inr v \<Rightarrow>
          (case makeConstantRefNode e v (getSourceReference n) False [] of
             Inl err \<Rightarrow> ((n, None, None), collection)
           | Inr (c, log) \<Rightarrow>
               ((ExpressionConstantRef c, Some new_constant, Some description), collection))
      | Inl exc \<Rightarrow>
          ((wrapExpressionWithSideEffects e
              (makeRaiseExceptionReplacementExpression e n (error_name exc) [])
              n (concat (map spec_side_effects (operands n))),
            Some new_raise, Some description),
           onExceptionRaiseExit collection exc))"

text \<open>
  The native constructors \<^verbatim>\<open>int\<close> and \<^verbatim>\<open>long\<close> of the reference host. A string is
  read as Python reads an integer literal in a base from 2 to 36: white space around it
  is dropped, one sign may come first, the prefix \<^verbatim>\<open>0x\<close>, \<^verbatim>\<open>0o\<close> or \<^verbatim>\<open>0b\<close> may follow
  when the base is 16, 8 or 2, and at least one digit of the base must remain, the letters
  standing for the digits from ten on.
\<close>

definition make_integer :: "builtin \<Rightarrow> int \<Rightarrow> pyvalue" where
  "make_integer b i = (case b of builtin_int \<Rightarrow> PInt i | builtin_long \<Rightarrow> PLong i)"

definition is_space :: "char \<Rightarrow> bool" where
  "is_space c = (c = CHR '' '' \<or> c = CHR 0x09 \<or> c = CHR 0x0A \<or> c = CHR 0x0B
                 \<or> c = CHR 0x0C \<or> c = CHR 0x0D)"

definition strip_spaces :: "string \<Rightarrow> string" where
  "strip_spaces s = rev (dropWhile is_space (rev (dropWhile is_space s)))"

definition digit_value :: "char \<Rightarrow> nat option" where
  "digit_value c =
     (let n = (of_char c :: nat) in
      if 48 \<le> n \<and> n \<le> 57 then Some (n - 48)
      else if 97 \<le> n \<and> n \<le> 122 then Some (n - 87)
      else if 65 \<le> n \<and> n \<le> 90 then Some (n - 55)
      else None)"

fun split_sign :: "string \<Rightarrow> int \<times> string" where
  "split_sign [] = (1, [])"
| "split_sign (c # cs) =
     (if c = CHR ''-'' then (- 1, cs) else if c = CHR ''+'' then (1, cs) else (1, c # cs))"

fun strip_prefix :: "nat \<Rightarrow> string \<Rightarrow> string" where
  "strip_prefix base (z # p # cs) =
     (if z = CHR ''0'' \<and>
         ((base = 16 \<and> (p = CHR ''x'' \<or> p = CHR ''X''))
          \<or> (base = 8 \<and> (p = CHR ''o'' \<or> p = CHR ''O''))
          \<or> (base = 2 \<and> (p = CHR ''b'' \<or> p = CHR ''B'')))
      then cs else z # p # cs)"
| "strip_prefix base cs = cs"

fun digits_value :: "nat \<Rightarrow> int \<Rightarrow> string \<Rightarrow> int option" where
  "digits_value base acc [] = Some acc"
| "digits_value base acc (c # cs) =
     (case digit_value c of
        None \<Rightarrow> None
      | Some d \<Rightarrow> if d < base then digits_value base (int base * acc + int d) cs else None)"

definition parse_integer :: "nat \<Rightarrow> string \<Rightarrow> int option" where
  "parse_integer base s =
     (let signed = split_sign (strip_spaces s);
          body = strip_prefix base (snd signed)
      in if body = [] then None
         else map_option (\<lambda>n. fst signed * n) (digits_value base 0 body))"

text \<open>
  The answer of the reference host to a call of \<^verbatim>\<open>int\<close> or \<^verbatim>\<open>long\<close> on constant
  arguments; \<open>None\<close> where the constructor's spec does not offer the call for
  compile-time evaluation. The calls that are offered are those whose answer does not
  depend on the build of the host: a literal with white space after its sign, with a
  trailing \<^verbatim>\<open>L\<close>, or with a zero byte, a base outside 2 to 36, an \<^verbatim>\<open>int\<close> beyond 32 bits
  (which may come back as a \<^verbatim>\<open>long\<close>) and every other form of call are not offered.
\<close>

definition string_offered :: "nat \<Rightarrow> string \<Rightarrow> bool" where
  "string_offered base s =
     (let body = snd (split_sign (strip_spaces s)) in
      CHR 0x00 \<notin> set s
      \<and> (body = [] \<or> (\<not> is_space (hd body)
            \<and> (22 \<le> base \<or> (last body \<noteq> CHR ''L'' \<and> last body \<noteq> CHR ''l'')))))"

definition integer_result :: "builtin \<Rightarrow> int \<Rightarrow> (error + pyvalue) option" where
  "integer_result b i =
     (if b = builtin_long \<or> (- (2 ^ 31) \<le> i \<and> i < 2 ^ 31) then Some (Inr (make_integer b i))
      else None)"

definition string_result :: "builtin \<Rightarrow> nat \<Rightarrow> string \<Rightarrow> (error + pyvalue) option" where
  "string_result b base s =
     (if \<not> string_offered base s then None
      else case parse_integer base s of
             None \<Rightarrow> Some (Inl ValueError)
           | Some i \<Rightarrow> integer_result b i)"

definition call_with_one :: "builtin \<Rightarrow> pyvalue \<Rightarrow> (error + pyvalue) option" where
  "call_with_one b x =
     (case x of
        PInt i \<Rightarrow> integer_result b i
      | PLong i \<Rightarrow> integer_result b i
      | PBool t \<Rightarrow> integer_result b (if t then 1 else 0)
      | PNone \<Rightarrow> Some (Inl TypeError)
      | PStr s \<Rightarrow> string_result b 10 s
      | _ \<Rightarrow> None)"

definition call_with_base :: "builtin \<Rightarrow> pyvalue \<Rightarrow> pyvalue \<Rightarrow> (error + pyvalue) option" where
  "call_with_base b x base =
     (case base of
        PInt n \<Rightarrow>
          (case x of
             PStr s \<Rightarrow> if 2 \<le> n \<and> n \<le> 36 then string_result b (nat n) s else None
           | PInt i \<Rightarrow> Some (Inl TypeError)
           | _ \<Rightarrow> None)
      | _ \<Rightarrow> None)"

definition reference_simulateCall :: "builtin \<Rightarrow> pyvalue list \<Rightarrow> (error + pyvalue) option" where
  "reference_simulateCall b args =
     (case args of
        [] \<Rightarrow> Some (Inr (make_integer b 0))
      | [x] \<Rightarrow> call_with_one b x
      | [x, base] \<Rightarrow> call_with_base b x base
      | _ \<Rightarrow> None)"

fun constant_of_node :: "node \<Rightarrow> pyvalue option" where
  "constant_of_node (ExpressionConstantRef c) = Some (constant_value c)"
| "constant_of_node n = None"

fun builtin_of_node :: "node \<Rightarrow> builtin" where
  "builtin_of_node (ExpressionBuiltinIntLong b val base sr) = b"
| "builtin_of_node n = builtin_int"

text \<open>
  Modelled from the spec: \<^verbatim>\<open>computeBuiltinSpec\<close> belongs to \<^verbatim>\<open>NodeBases\<close>, which is
  not among the sources. It is the shared fold: when every operand given is a constant
  node and the constructor's spec offers the call for compile-time evaluation, the native
  constructor is run on the values by the compile-time evaluation helper; otherwise the
  node is left as it is, with no tag.
\<close>

definition spec_computeBuiltinSpec ::
  "env \<Rightarrow> constraint_collection \<Rightarrow> node \<Rightarrow> node list \<Rightarrow> compute_result \<times> constraint_collection" where
  "spec_computeBuiltinSpec e collection n given_values =
     (if list_all (\<lambda>v. constant_of_node v \<noteq> None) given_values then
        (case reference_simulateCall (builtin_of_node n)
                (map (\<lambda>v. the (constant_of_node v)) given_values) of
           None \<Rightarrow> ((n, None, None), collection)
         | Some computation \<Rightarrow>
             spec_getCompileTimeComputationResult e collection n computation
               ''Built-in call pre-computed.'')
      else ((n, None, None), collection))"

text \<open>
  Modelled from the spec: \<^verbatim>\<open>getConstantIterationLength\<close> of \<^verbatim>\<open>nuitka.Constants\<close> is
  not among the sources. It is the number of values that iterating the constant yields
  (it is asked only about iterable constants).
\<close>

definition spec_getConstantIterationLength :: "pyvalue \<Rightarrow> int" where
  "spec_getConstantIterationLength v =
     (case py_iter v of Inl err \<Rightarrow> 0 | Inr vs \<Rightarrow> int (length vs))"

definition base_env :: env where
  "base_env =
     \<lparr>python_version = 270, isDebug = True,
      isConstant = spec_isConstant, isIterableConstant = spec_isIterableConstant,
      getConstantIterationLength = spec_getConstantIterationLength,
      call_base_2 = (\<lambda>b. Inl TypeError),
      makeRaiseExceptionReplacementExpression = spec_makeRaiseExceptionReplacementExpression,
      wrapExpressionWithSideEffects = spec_wrapExpressionWithSideEffects,
      extractPreCallSideEffects = (\<lambda>call_node. []),
      getCompileTimeComputationResult = (\<lambda>collection n computation description.
         ((n, None, None), collection)),
      computeBuiltinSpec = (\<lambda>collection n given_values. ((n, None, None), collection))\<rparr>"

definition reference_env :: env where
  "reference_env =
     base_env\<lparr>getCompileTimeComputationResult := spec_getCompileTimeComputationResult base_env,
              computeBuiltinSpec := spec_computeBuiltinSpec base_env\<rparr>"

text \<open>The same host, but one that accepts \<^verbatim>\<open>int(base = 2)\<close> and answers zero.\<close>

definition base_only_env :: env where
  "base_only_env = reference_env\<lparr>call_base_2 := (\<lambda>b. Inr (make_integer b 0))\<rparr>"

section \<open>Notions of the specification\<close>

text \<open>
  The size above which a synthesized constant is reported (1000 for the text kinds, 256
  for every other sized payload) and the diagnostics that the construction of a node for
  a value adds to the log; the kind tag of each value shape, where the factory has one;
  the kinds with a subscript that follows the iteration order; the kinds that
  \<^verbatim>\<open>computeExpressionIter1\<close> rewrites to a tuple.
\<close>

definition size_threshold :: "pyvalue \<Rightarrow> nat" where
  "size_threshold c = (if type_of c = T_str \<or> type_of c = T_unicode then 1000 else 256)"

definition too_large_diagnostics :: "env \<Rightarrow> pyvalue \<Rightarrow> source_ref \<Rightarrow> bool \<Rightarrow> diagnostic list" where
  "too_large_diagnostics e c sr up =
     (if \<not> up \<and> isDebug e then
        (case py_len c of
           Inl err \<Rightarrow> []
         | Inr n \<Rightarrow> if size_threshold c < n
                    then [Too_large_constant (type_of c) n (getAsString sr)] else [])
      else [])"

fun kind_for :: "pyvalue \<Rightarrow> node_kind option" where
  "kind_for PNone = Some EXPRESSION_CONSTANT_NONE_REF"
| "kind_for (PBool b) =
     Some (if b then EXPRESSION_CONSTANT_TRUE_REF else EXPRESSION_CONSTANT_FALSE_REF)"
| "kind_for PEllipsis = Some EXPRESSION_CONSTANT_ELLIPSIS_REF"
| "kind_for (PInt i) = Some EXPRESSION_CONSTANT_INT_REF"
| "kind_for (PLong i) = Some EXPRESSION_CONSTANT_LONG_REF"
| "kind_for (PFloat f) = Some EXPRESSION_CONSTANT_FLOAT_REF"
| "kind_for (PComplex re im) = Some EXPRESSION_CONSTANT_COMPLEX_REF"
| "kind_for (PStr s) = Some EXPRESSION_CONSTANT_STR_REF"
| "kind_for (PUnicode s) = Some EXPRESSION_CONSTANT_UNICODE_REF"
| "kind_for (PBytes bs) = Some EXPRESSION_CONSTANT_BYTES_REF"
| "kind_for (PTuple vs) = Some EXPRESSION_CONSTANT_TUPLE_REF"
| "kind_for (PList vs) = Some EXPRESSION_CONSTANT_LIST_REF"
| "kind_for (PSet vs) = Some EXPRESSION_CONSTANT_SET_REF"
| "kind_for (PFrozenset vs) = None"
| "kind_for (PDict kvs) =
     Some (if kvs = [] then EXPRESSION_CONSTANT_DICT_EMPTY_REF else EXPRESSION_CONSTANT_DICT_REF)"
| "kind_for (PSlice a b c) = Some EXPRESSION_CONSTANT_SLICE_REF"
| "kind_for (PType n) = Some EXPRESSION_CONSTANT_TYPE_REF"

definition subscriptable_sequence :: "pyvalue \<Rightarrow> bool" where
  "subscriptable_sequence c =
     (type_of c = T_str \<or> type_of c = T_unicode \<or> type_of c = T_bytes
      \<or> type_of c = T_tuple \<or> type_of c = T_list)"

definition rewritten_to_tuple :: "pytype \<Rightarrow> bool" where
  "rewritten_to_tuple t = (t = T_list \<or> t = T_set \<or> t = T_frozenset \<or> t = T_dict)"

text \<open>The node that the factory builds for a value that the optimizer synthesizes.\<close>

definition value_node :: "source_ref \<Rightarrow> pyvalue \<Rightarrow> constant_ref" where
  "value_node sr v =
     \<lparr>kind = the (kind_for v), constant_value = v, source_ref = sr, user_provided = False\<rparr>"

section \<open>Concrete nodes and states for running the model\<close>

definition zero_string_node :: "source_ref \<Rightarrow> node" where
  "zero_string_node sr =
     ExpressionConstantRef
       \<lparr>kind = EXPRESSION_CONSTANT_STR_REF, constant_value = PStr ''0'', source_ref = sr,
        user_provided = False\<rparr>"

definition two_node :: node where
  "two_node =
     ExpressionConstantRef
       \<lparr>kind = EXPRESSION_CONSTANT_INT_REF, constant_value = PInt 2,
        source_ref = SourceCodeReference ''m.py:1'', user_provided = True\<rparr>"

definition zero_int_node :: node where
  "zero_int_node =
     ExpressionConstantRef
       \<lparr>kind = EXPRESSION_CONSTANT_INT_REF, constant_value = PInt 0,
        source_ref = SourceCodeReference ''m.py:1'', user_provided = False\<rparr>"

definition zero_long_node :: node where
  "zero_long_node =
     ExpressionConstantRef
       \<lparr>kind = EXPRESSION_CONSTANT_LONG_REF, constant_value = PLong 0,
        source_ref = SourceCodeReference ''m.py:1'', user_provided = False\<rparr>"

definition set_123 :: constant_ref where
  "set_123 =
     \<lparr>kind = EXPRESSION_CONSTANT_SET_REF, constant_value = PSet [PInt 1, PInt 2, PInt 3],
      source_ref = SourceCodeReference ''m.py:1'', user_provided = True\<rparr>"

definition dict_0_a :: constant_ref where
  "dict_0_a =
     \<lparr>kind = EXPRESSION_CONSTANT_DICT_REF, constant_value = PDict [(PInt 0, PStr ''a'')],
      source_ref = SourceCodeReference ''m.py:1'', user_provided = True\<rparr>"

definition example_state :: rewrite_state where
  "example_state =
     \<lparr>diagnostics = [], collection_of = \<lparr>raise_exits = []\<rparr>,
      parent_slot = ExpressionConstantRef
        \<lparr>kind = EXPRESSION_CONSTANT_SET_REF, constant_value = PSet [PInt 1, PInt 2, PInt 3],
         source_ref = SourceCodeReference ''m.py:1'', user_provided = True\<rparr>\<rparr>"

section \<open>Properties of the literal encoding\<close>

lemma map_option_append_Nil [simp]: "map_option ((@) []) x = x"
  by (cases x) simp_all

lemma encode_byte_acc:
  "encode_byte (res, octal) c =
     (res @ fst (encode_byte ([], octal) c), snd (encode_byte ([], octal) c))"
  by (simp add: encode_byte_def Let_def)

lemma foldl_encode_byte:
  "fst (foldl encode_byte (res, octal) bs) = res @ encode_from octal bs"
proof (induction bs arbitrary: res octal)
  case Nil
  show ?case by simp
next
  case (Cons c cs)
  have "foldl encode_byte (res, octal) (c # cs) =
        foldl encode_byte (res @ fst (encode_byte ([], octal) c), snd (encode_byte ([], octal) c)) cs"
    by (simp add: encode_byte_acc [of res])
  then show ?case by (simp add: Cons.IH)
qed

lemma octal_digit_char: "(d::nat) < 8 \<Longrightarrow> octal_digit (char_of (48 + d))"
  by (simp add: octal_digit_def)

lemma fmt_o_small: "v < 8 \<Longrightarrow> fmt_o v = [char_of (48 + v)]"
  by (subst fmt_o.simps) simp

lemma fmt_o_medium:
  "8 \<le> v \<Longrightarrow> v < 64 \<Longrightarrow> fmt_o v = [char_of (48 + v div 8), char_of (48 + v mod 8)]"
  by (subst fmt_o.simps) (simp add: fmt_o_small)

lemma fmt_o_large: "64 \<le> v \<Longrightarrow> v < 512 \<Longrightarrow>
   fmt_o v = [char_of (48 + v div 64), char_of (48 + v div 8 mod 8), char_of (48 + v mod 8)]"
  by (subst fmt_o.simps) (simp add: fmt_o_medium div_mult2_eq)

lemma step_escape_digit:
  "(d::nat) < 8 \<Longrightarrow> c_step Escape (char_of (48 + d)) = Some (Octal 1 d, [])"
  by (simp add: octal_digit_def)

lemma step_octal_digit:
  "(d::nat) < 8 \<Longrightarrow> k < 3 \<Longrightarrow>
   c_step (Octal k v) (char_of (48 + d)) = Some (Octal (Suc k) (8 * v + d), [])"
  by (simp add: octal_digit_def)

lemma octal_recompose: "8 * (8 * (v div 64) + v div 8 mod 8) + v mod 8 = (v::nat)"
proof -
  have "v div 64 = v div 8 div 8" by (simp add: div_mult2_eq)
  then show ?thesis by simp
qed

lemma decode_silent_step:
  "c_step st c = Some (st', []) \<Longrightarrow> c_decode_from st (c # cs) = c_decode_from st' cs"
  by simp

lemma decode_escape:
  assumes "v < 256"
  shows "\<exists>k. c_decode_from Escape (fmt_o v @ rest) = c_decode_from (Octal k v) rest"
proof -
  consider "v < 8" | "8 \<le> v" "v < 64" | "64 \<le> v" "v < 256" using assms by linarith
  then show ?thesis
  proof cases
    case 1
    have "c_decode_from Escape (char_of (48 + v) # rest) = c_decode_from (Octal 1 v) rest"
      by (rule decode_silent_step, rule step_escape_digit) fact
    then have "c_decode_from Escape (fmt_o v @ rest) = c_decode_from (Octal 1 v) rest"
      using 1 by (simp only: fmt_o_small append_Cons append_Nil)
    then show ?thesis ..
  next
    case 2
    then have d: "v div 8 < 8" "v mod 8 < 8" by simp_all
    have s1: "c_decode_from Escape (char_of (48 + v div 8) # char_of (48 + v mod 8) # rest) =
              c_decode_from (Octal 1 (v div 8)) (char_of (48 + v mod 8) # rest)"
      by (rule decode_silent_step, rule step_escape_digit) fact
    have s2: "c_decode_from (Octal 1 (v div 8)) (char_of (48 + v mod 8) # rest) =
              c_decode_from (Octal (Suc 1) (8 * (v div 8) + v mod 8)) rest"
      by (rule decode_silent_step, rule step_octal_digit) (use d in simp_all)
    have "8 * (v div 8) + v mod 8 = v" by simp
    with s1 s2 have "c_decode_from Escape (fmt_o v @ rest) = c_decode_from (Octal (Suc 1) v) rest"
      using 2 by (simp only: fmt_o_medium append_Cons append_Nil)
    then show ?thesis ..
  next
    case 3
    then have d: "v div 64 < 8" "v div 8 mod 8 < 8" "v mod 8 < 8" by simp_all
    let ?a = "char_of (48 + v div 64)" and ?b = "char_of (48 + v div 8 mod 8)"
      and ?c = "char_of (48 + v mod 8)"
    have s1: "c_decode_from Escape (?a # ?b # ?c # rest) =
              c_decode_from (Octal 1 (v div 64)) (?b # ?c # rest)"
      by (rule decode_silent_step, rule step_escape_digit) fact
    have s2: "c_decode_from (Octal 1 (v div 64)) (?b # ?c # rest) =
              c_decode_from (Octal (Suc 1) (8 * (v div 64) + v div 8 mod 8)) (?c # rest)"
      by (rule decode_silent_step, rule step_octal_digit) (use d in simp_all)
    have s3: "c_decode_from (Octal (Suc 1) (8 * (v div 64) + v div 8 mod 8)) (?c # rest) =
              c_decode_from (Octal (Suc (Suc 1)) (8 * (8 * (v div 64) + v div 8 mod 8) + v mod 8)) rest"
      by (rule decode_silent_step, rule step_octal_digit) (use d in simp_all)
    have v512: "v < 512" using 3 by simp
    from s1 s2 s3 have "c_decode_from Escape (fmt_o v @ rest) = c_decode_from (Octal (Suc (Suc 1)) v) rest"
      using 3(1) v512 by (simp only: fmt_o_large octal_recompose append_Cons append_Nil)
    then show ?thesis ..
  qed
qed

lemma digit_bytes_iff: "c \<in> set digit_bytes \<longleftrightarrow> 48 \<le> unat c \<and> unat c \<le> 57"
  by (simp add: digit_bytes_def word_unat_eq_iff) arith

lemma escaped_bytes_iff:
  "c \<in> set escaped_bytes \<longleftrightarrow> unat c \<in> {92, 9, 13, 10, 34, 63}"
  by (simp add: escaped_bytes_def word_unat_eq_iff)

lemma of_char_byte: "(of_char (char_of (unat (c::byte))) :: nat) = unat c"
proof -
  have "unat c < 256" using unsigned_less [of c] by simp
  then show ?thesis by simp
qed

lemma char_of_byte_eq: "char_of (unat (c::byte)) = ch \<Longrightarrow> unat c = of_char ch"
  using of_char_byte [of c] by simp

lemma printable_step:
  assumes "c \<notin> set escaped_bytes" "32 \<le> unat c"
  shows "inside_step (char_of (unat c)) = Some (Inside, [c])"
proof -
  let ?ch = "char_of (unat c) :: char"
  have "?ch \<noteq> DQUOTE"
  proof
    assume "?ch = DQUOTE"
    then have "unat c = of_char DQUOTE" by (rule char_of_byte_eq)
    with assms(1) show False by (simp add: escaped_bytes_iff)
  qed
  moreover have "?ch \<noteq> BACKSLASH"
  proof
    assume "?ch = BACKSLASH"
    then have "unat c = of_char BACKSLASH" by (rule char_of_byte_eq)
    with assms(1) show False by (simp add: escaped_bytes_iff)
  qed
  moreover have "?ch \<noteq> CHR 0x0A"
  proof
    assume "?ch = CHR 0x0A"
    then have "unat c = of_char (CHR 0x0A)" by (rule char_of_byte_eq)
    with assms(2) show False by simp
  qed
  moreover have "word_of_nat (of_char ?ch) = c"
    by (simp only: of_char_byte) simp
  ultimately show ?thesis by (simp only: inside_step_def if_False)
qed

lemma nondigit_not_octal:
  "c \<notin> set digit_bytes \<Longrightarrow> \<not> octal_digit (char_of (unat c))"
  unfolding octal_digit_def digit_bytes_iff by (simp only: of_char_byte) arith

lemma special_not_octal: "\<not> octal_digit DQUOTE" "\<not> octal_digit BACKSLASH"
  by (simp_all add: octal_digit_def)

lemma encode_byte_escape:
  "needs_escape c \<Longrightarrow> encode_byte ([], octal) c = (BACKSLASH # fmt_o (unat c), True)"
  by (auto simp: needs_escape_def encode_byte_def Let_def)

lemma encode_byte_plain:
  "\<not> needs_escape c \<Longrightarrow>
   encode_byte ([], octal) c =
     ((if octal \<and> c \<in> set digit_bytes then [DQUOTE, CHR '' '', DQUOTE] else [])
        @ [char_of (unat c)], False)"
  by (auto simp: needs_escape_def encode_byte_def Let_def)

lemma decode_step:
  "c_step st c = Some (st', out) \<Longrightarrow>
   c_decode_from st (c # cs) = map_option ((@) out) (c_decode_from st' cs)"
  by simp

lemma map_option_append2:
  "map_option ((@) xs) (map_option ((@) ys) z) = map_option ((@) (xs @ ys)) z"
  by (cases z) simp_all

lemma append_single_fun: "(@) [x] = (#) x"
  by (rule ext) simp

lemma map_option_ident_fun: "map_option (\<lambda>a. a) z = z"
  by (cases z) simp_all

lemma byte_unat_less: "unat (c::byte) < 256"
  using unsigned_less [of c] by simp

lemma decode_body:
  "(\<forall>rest. c_decode_from Inside (encode_from False bs @ DQUOTE # rest)
            = map_option ((@) bs) (c_decode_from Outside rest)) \<and>
   (\<forall>k v rest. v < 256 \<longrightarrow>
       c_decode_from (Octal k v) (encode_from True bs @ DQUOTE # rest)
            = map_option ((@) (word_of_nat v # bs)) (c_decode_from Outside rest))"
proof (induction bs)
  case Nil
  have "\<And>k v. v < 256 \<Longrightarrow> c_step (Octal k v) DQUOTE = Some (Outside, [word_of_nat v])"
    by (simp add: special_not_octal inside_step_def)
  moreover have "c_step Inside DQUOTE = Some (Outside, [])" by (simp add: inside_step_def)
  ultimately show ?case by (simp add: append_single_fun map_option_ident_fun del: c_step.simps)
next
  case (Cons c cs)
  note IH1 = Cons.IH [THEN conjunct1, rule_format]
  note IH2 = Cons.IH [THEN conjunct2, rule_format]
  show ?case
  proof (cases "needs_escape c")
    case True
    have esc: "\<And>rest. c_decode_from Escape (fmt_o (unat c) @ encode_from True cs @ DQUOTE # rest)
                 = map_option ((@) (c # cs)) (c_decode_from Outside rest)"
    proof -
      fix rest
      obtain k where "c_decode_from Escape (fmt_o (unat c) @ encode_from True cs @ DQUOTE # rest)
           = c_decode_from (Octal k (unat c)) (encode_from True cs @ DQUOTE # rest)"
        using decode_escape [OF byte_unat_less] by blast
      then show "c_decode_from Escape (fmt_o (unat c) @ encode_from True cs @ DQUOTE # rest)
                 = map_option ((@) (c # cs)) (c_decode_from Outside rest)"
        by (simp add: IH2 [OF byte_unat_less])
    qed
    have a: "\<And>rest. c_decode_from Inside (encode_from False (c # cs) @ DQUOTE # rest)
            = map_option ((@) (c # cs)) (c_decode_from Outside rest)"
    proof -
      fix rest
      have "c_step Inside BACKSLASH = Some (Escape, [])" by (simp add: inside_step_def)
      then show "c_decode_from Inside (encode_from False (c # cs) @ DQUOTE # rest)
            = map_option ((@) (c # cs)) (c_decode_from Outside rest)"
        using True by (simp add: encode_byte_escape esc del: c_step.simps)
    qed
    have b: "\<And>k v rest. v < 256 \<Longrightarrow>
       c_decode_from (Octal k v) (encode_from True (c # cs) @ DQUOTE # rest)
            = map_option ((@) (word_of_nat v # c # cs)) (c_decode_from Outside rest)"
    proof -
      fix k v :: nat and rest assume v: "v < 256"
      have "c_step (Octal k v) BACKSLASH = Some (Escape, [word_of_nat v])"
        using v by (simp add: special_not_octal inside_step_def)
      then show "c_decode_from (Octal k v) (encode_from True (c # cs) @ DQUOTE # rest)
            = map_option ((@) (word_of_nat v # c # cs)) (c_decode_from Outside rest)"
        using True by (simp add: encode_byte_escape esc map_option_append2 del: c_step.simps)
    qed
    from a b show ?thesis by blast
  next
    case False
    then have plain: "c \<notin> set escaped_bytes" "32 \<le> unat c"
      by (simp_all add: needs_escape_def)
    note ps = printable_step [OF plain]
    have a: "\<And>rest. c_decode_from Inside (encode_from False (c # cs) @ DQUOTE # rest)
            = map_option ((@) (c # cs)) (c_decode_from Outside rest)"
    proof -
      fix rest
      have "c_step Inside (char_of (unat c)) = Some (Inside, [c])" using ps by simp
      then show "c_decode_from Inside (encode_from False (c # cs) @ DQUOTE # rest)
            = map_option ((@) (c # cs)) (c_decode_from Outside rest)"
        using False by (simp add: encode_byte_plain IH1 map_option_append2 del: c_step.simps)
    qed
    have b: "\<And>k v rest. v < 256 \<Longrightarrow>
       c_decode_from (Octal k v) (encode_from True (c # cs) @ DQUOTE # rest)
            = map_option ((@) (word_of_nat v # c # cs)) (c_decode_from Outside rest)"
    proof -
      fix k v :: nat and rest assume v: "v < 256"
      show "c_decode_from (Octal k v) (encode_from True (c # cs) @ DQUOTE # rest)
            = map_option ((@) (word_of_nat v # c # cs)) (c_decode_from Outside rest)"
      proof (cases "c \<in> set digit_bytes")
        case True
        have s1: "c_step (Octal k v) DQUOTE = Some (Outside, [word_of_nat v])"
          using v by (simp add: special_not_octal inside_step_def)
        have s2: "c_step Outside (CHR '' '') = Some (Outside, [])" by simp
        have s3: "c_step Outside DQUOTE = Some (Inside, [])" by simp
        have s4: "c_step Inside (char_of (unat c)) = Some (Inside, [c])" using ps by simp
        show ?thesis
          using True False
          by (simp add: encode_byte_plain IH1 map_option_append2
                decode_step [OF s1] decode_step [OF s2] decode_step [OF s3] decode_step [OF s4]
                del: c_step.simps c_decode_from.simps)
      next
        case nd: False
        have s: "c_step (Octal k v) (char_of (unat c)) = Some (Inside, [word_of_nat v, c])"
          using v nondigit_not_octal [OF nd] ps by simp
        show ?thesis
          using nd False
          by (simp add: encode_byte_plain IH1 map_option_append2 decode_step [OF s]
                del: c_step.simps c_decode_from.simps)
      qed
    qed
    from a b show ?thesis by blast
  qed
qed

lemma nqb_tail: "no_quote_backslash (a # s) \<Longrightarrow> no_quote_backslash s"
  by (cases s) simp_all

lemma str_replace_skip:
  "old \<noteq> [] \<Longrightarrow> take (length old) (c # cs) \<noteq> old \<Longrightarrow>
   str_replace old new (c # cs) = c # str_replace old new cs"
  by (simp add: str_replace.simps(2))

lemma str_replace_noop:
  "no_quote_backslash s \<Longrightarrow>
   str_replace [DQUOTE, CHR '' '', DQUOTE, BACKSLASH] [BACKSLASH] s = s"
proof (induction s)
  case Nil
  show ?case by simp
next
  case (Cons c cs)
  let ?pat = "[DQUOTE, CHR '' '', DQUOTE, BACKSLASH]"
  have "take (length ?pat) (c # cs) \<noteq> ?pat"
  proof
    assume t: "take (length ?pat) (c # cs) = ?pat"
    have "c # cs = take (length ?pat) (c # cs) @ drop (length ?pat) (c # cs)"
      by (simp only: append_take_drop_id)
    then have "c # cs = ?pat @ drop (length ?pat) (c # cs)" by (simp only: t)
    then obtain r where "c # cs = ?pat @ r" ..
    with Cons.prems show False by simp
  qed
  then have "str_replace ?pat [BACKSLASH] (c # cs) = c # str_replace ?pat [BACKSLASH] cs"
    by (intro str_replace_skip) simp_all
  moreover have "str_replace ?pat [BACKSLASH] cs = cs"
    using Cons.IH nqb_tail [OF Cons.prems] by simp
  ultimately show ?case by simp
qed

lemma nqb_append:
  "no_quote_backslash x \<Longrightarrow> no_quote_backslash y \<Longrightarrow> x \<noteq> [] \<Longrightarrow> last x \<noteq> DQUOTE \<Longrightarrow>
   no_quote_backslash (x @ y)"
proof (induction x)
  case Nil
  then show ?case by simp
next
  case outer: (Cons a x)
  show ?case
  proof (cases x)
    case Nil
    with outer.prems show ?thesis by (cases y) simp_all
  next
    case inner: (Cons b s)
    have "no_quote_backslash (x @ y)"
      using outer.IH outer.prems inner by simp
    with outer.prems inner show ?thesis by simp
  qed
qed

lemma nqb_no_quote: "DQUOTE \<notin> set s \<Longrightarrow> no_quote_backslash s"
  by (induction s rule: no_quote_backslash.induct) auto

lemma fmt_o_no_quote: "DQUOTE \<notin> set (fmt_o n)"
proof (induction n rule: fmt_o.induct)
  case (1 n)
  have d: "\<And>d::nat. d < 8 \<Longrightarrow> char_of (48 + d) \<noteq> DQUOTE"
  proof
    fix d :: nat assume d: "d < 8" and e: "char_of (48 + d) = DQUOTE"
    from d have "(of_char (char_of (48 + d) :: char) :: nat) = 48 + d" by simp
    then have "(of_char DQUOTE :: nat) = 48 + d" by (simp only: e)
    then show False by simp
  qed
  show ?case
  proof (cases "n < 8")
    case True
    then show ?thesis using d [of n] by (simp add: fmt_o_small)
  next
    case False
    then have "DQUOTE \<notin> set (fmt_o (n div 8))" using 1 by simp
    moreover have "char_of (48 + n mod 8) \<noteq> DQUOTE" by (rule d) simp
    ultimately show ?thesis using False by (subst fmt_o.simps) simp
  qed
qed

lemma nqb_encode_from: "no_quote_backslash (encode_from octal bs)"
proof (induction bs arbitrary: octal)
  case Nil
  show ?case by simp
next
  case (Cons c cs)
  show ?case
  proof (cases "needs_escape c")
    case True
    have e1: "no_quote_backslash (BACKSLASH # fmt_o (unat c))"
      by (rule nqb_no_quote) (simp add: fmt_o_no_quote)
    have e2: "BACKSLASH # fmt_o (unat c) \<noteq> []" by simp
    have e3: "last (BACKSLASH # fmt_o (unat c)) \<noteq> DQUOTE"
    proof (cases "fmt_o (unat c) = []")
      case True
      then show ?thesis by simp
    next
      case False
      then have "last (fmt_o (unat c)) \<in> set (fmt_o (unat c))" by (rule last_in_set)
      with fmt_o_no_quote [of "unat c"] have "last (fmt_o (unat c)) \<noteq> DQUOTE" by auto
      with False show ?thesis by simp
    qed
    have "no_quote_backslash ((BACKSLASH # fmt_o (unat c)) @ encode_from True cs)"
      by (rule nqb_append [OF e1 Cons.IH e2 e3])
    then show ?thesis using True by (simp add: encode_byte_escape)
  next
    case False
    then have plain: "c \<notin> set escaped_bytes" "32 \<le> unat c"
      by (simp_all add: needs_escape_def)
    have ps: "inside_step (char_of (unat c)) = Some (Inside, [c])"
      by (rule printable_step [OF plain])
    then have ne: "char_of (unat c) \<noteq> DQUOTE" "char_of (unat c) \<noteq> BACKSLASH"
      by (auto simp: inside_step_def split: if_splits)
    let ?p = "(if octal \<and> c \<in> set digit_bytes then [DQUOTE, CHR '' '', DQUOTE] else [])
                @ [char_of (unat c)]"
    have p1: "no_quote_backslash ?p" using ne by simp
    have p2: "?p \<noteq> []" by simp
    have p3: "last ?p \<noteq> DQUOTE" using ne by simp
    have "no_quote_backslash (?p @ encode_from False cs)"
      by (rule nqb_append [OF p1 Cons.IH p2 p3])
    then show ?thesis using False by (simp add: encode_byte_plain)
  qed
qed

lemma inner_eq:
  "encodePythonStringToC_inner bs = DQUOTE # encode_from False bs @ [DQUOTE]"
  by (simp add: encodePythonStringToC_inner_def foldl_encode_byte str_replace_noop nqb_encode_from)

lemma decode_inner:
  "c_decode_from Outside (encodePythonStringToC_inner bs @ rest)
     = map_option ((@) bs) (c_decode_from Outside rest)"
  using decode_body [of bs] by (simp add: inner_eq)

lemma decode_space: "c_decode_from Outside (CHR '' '' # rest) = c_decode_from Outside rest"
  by simp

lemma decode_chunks:
  assumes "\<And>rest. c_decode_from Outside (result @ rest) = map_option ((@) xs) (c_decode_from Outside rest)"
  shows "c_decode_from Outside (encode_chunks result value @ rest)
           = map_option ((@) (xs @ value)) (c_decode_from Outside rest)"
  using assms
proof (induction result "value" arbitrary: xs rest rule: encode_chunks.induct)
  case (1 result "value")
  show ?case
  proof (cases "length value > 0")
    case False
    then show ?thesis using "1.prems" by (simp add: encode_chunks.simps)
  next
    case True
    have step: "\<And>rest. c_decode_from Outside
              ((result @ '' '' @ encodePythonStringToC_inner (take 16000 value)) @ rest)
            = map_option ((@) (xs @ take 16000 value)) (c_decode_from Outside rest)"
    proof -
      fix rest
      have "c_decode_from Outside
              (result @ (CHR '' '' # encodePythonStringToC_inner (take 16000 value) @ rest))
            = map_option ((@) xs) (map_option ((@) (take 16000 value)) (c_decode_from Outside rest))"
        by (simp only: "1.prems" decode_space decode_inner)
      then show "c_decode_from Outside
              ((result @ '' '' @ encodePythonStringToC_inner (take 16000 value)) @ rest)
            = map_option ((@) (xs @ take 16000 value)) (c_decode_from Outside rest)"
        by (simp only: map_option_append2 append_assoc append_Cons append_Nil)
    qed
    have "c_decode_from Outside
            (encode_chunks (result @ '' '' @ encodePythonStringToC_inner (take 16000 value))
               (drop 16000 value) @ rest)
          = map_option ((@) ((xs @ take 16000 value) @ drop 16000 value)) (c_decode_from Outside rest)"
      by (rule "1.IH" [OF True step])
    then show ?thesis using True by (subst encode_chunks.simps) simp
  qed
qed

lemma roundtrip: "c_decode (encodePythonStringToC value) = Some value"
proof -
  have "c_decode_from Outside (encode_chunks (encodePythonStringToC_inner (take 16000 value)) (drop 16000 value) @ [])
        = map_option ((@) (take 16000 value @ drop 16000 value)) (c_decode_from Outside [])"
    by (rule decode_chunks) (rule decode_inner)
  then show ?thesis by (simp add: c_decode_def encodePythonStringToC_def)
qed

lemma encode_chunks_join:
  "encode_chunks result value =
     result @ concat (map (\<lambda>t. CHR '' '' # t) (map encodePythonStringToC_inner (rest_chunks value)))"
proof (induction result "value" rule: encode_chunks.induct)
  case (1 result "value")
  show ?case
  proof (cases "length value > 0")
    case True
    then show ?thesis
      using "1.IH" by (subst encode_chunks.simps, subst rest_chunks.simps) simp
  next
    case False
    then show ?thesis by (subst encode_chunks.simps, subst rest_chunks.simps) simp
  qed
qed

lemma concat_rest_chunks: "concat (rest_chunks value) = value"
proof (induction "value" rule: rest_chunks.induct)
  case (1 "value")
  show ?case
  proof (cases "length value > 0")
    case True
    then show ?thesis using "1.IH" by (subst rest_chunks.simps) simp
  next
    case False
    then show ?thesis by (subst rest_chunks.simps) simp
  qed
qed

lemma chunk_count_gen:
  assumes "0 < (k::nat)" "0 < (n::nat)"
  shows "Suc ((n - k + (k - 1)) div k) = (n + (k - 1)) div k"
proof -
  have "k \<le> n + (k - 1)" using assms by simp
  then have e: "(n + (k - 1)) div k = Suc ((n + (k - 1) - k) div k)"
    using assms(1) by (intro le_div_geq) simp_all
  show ?thesis
  proof (cases "k \<le> n")
    case True
    then have "n + (k - 1) - k = n - k + (k - 1)" by simp
    with e show ?thesis by simp
  next
    case False
    then have "n - k + (k - 1) < k" "n + (k - 1) - k < k" using assms by simp_all
    then have "(n - k + (k - 1)) div k = 0" "(n + (k - 1) - k) div k = 0"
      by (simp_all only: div_less)
    with e show ?thesis by simp
  qed
qed

lemma chunk_count_step:
  "0 < (n::nat) \<Longrightarrow> Suc ((n - 16000 + 15999) div 16000) = (n + 15999) div 16000"
  using chunk_count_gen [of 16000 n] by simp

lemma length_rest_chunks: "length (rest_chunks value) = (length value + 15999) div 16000"
proof (induction "value" rule: rest_chunks.induct)
  case (1 "value")
  show ?case
  proof (cases "length value > 0")
    case True
    then have "length (rest_chunks value) = Suc ((length value - 16000 + 15999) div 16000)"
      using "1.IH" by (subst rest_chunks.simps) simp
    also have "\<dots> = (length value + 15999) div 16000"
      using True by (rule chunk_count_step)
    finally show ?thesis .
  next
    case False
    then show ?thesis by (subst rest_chunks.simps) simp
  qed
qed

lemma length_payload_chunks:
  "length (payload_chunks value) = max 1 ((length value + 15999) div 16000)"
  unfolding payload_chunks_def
  by (simp add: length_rest_chunks)

lemma decode_inner_alone: "c_decode (encodePythonStringToC_inner bs) = Some bs"
  using decode_inner [of bs "[]"] by (simp add: c_decode_def)

lemma encode_as_chunks:
  "encodePythonStringToC value =
     join_with_space (map encodePythonStringToC_inner (payload_chunks value))"
  by (simp add: encodePythonStringToC_def payload_chunks_def encode_chunks_join)

lemma concat_payload_chunks: "concat (payload_chunks value) = value"
  by (simp add: payload_chunks_def concat_rest_chunks)

text \<open>
  No question mark is written as itself, so no trigraph can form in the produced text.
\<close>

lemma fmt_o_octal: "c \<in> set (fmt_o n) \<Longrightarrow> octal_digit c"
proof (induction n rule: fmt_o.induct)
  case (1 n)
  show ?case
  proof (cases "n < 8")
    case True
    with "1.prems" show ?thesis by (simp add: fmt_o_small octal_digit_def)
  next
    case False
    have "n mod 8 < 8" by simp
    then have "octal_digit (char_of (48 + n mod 8))" by (rule octal_digit_char)
    with False "1.prems" "1.IH" show ?thesis
      by (subst (asm) fmt_o.simps) auto
  qed
qed

lemma question_mark_free_body: "CHR ''?'' \<notin> set (encode_from octal bs)"
proof (induction bs arbitrary: octal)
  case Nil
  show ?case by simp
next
  case (Cons c cs)
  show ?case
  proof (cases "needs_escape c")
    case True
    have "CHR ''?'' \<notin> set (fmt_o (unat c))"
      using fmt_o_octal [of "CHR ''?''" "unat c"] by (auto simp: octal_digit_def)
    then show ?thesis using True Cons.IH by (simp add: encode_byte_escape)
  next
    case False
    then have plain: "c \<notin> set escaped_bytes" by (simp add: needs_escape_def)
    have "char_of (unat c) \<noteq> CHR ''?''"
    proof
      assume "char_of (unat c) = CHR ''?''"
      then have "unat c = of_char (CHR ''?'')" by (rule char_of_byte_eq)
      with plain show False by (simp add: escaped_bytes_iff)
    qed
    then show ?thesis using False Cons.IH by (simp add: encode_byte_plain)
  qed
qed

lemma question_mark_free: "CHR ''?'' \<notin> set (encodePythonStringToC value)"
  by (auto simp: encode_as_chunks payload_chunks_def inner_eq question_mark_free_body)

text \<open>
  Claim C3. For every byte payload, reading the text that \<^verbatim>\<open>encodePythonStringToC\<close>
  produces as a sequence of adjacent C string literals gives back exactly the payload.
  The text is the literals of the consecutive chunks of at most 16000 bytes of the
  payload, joined by single spaces; the chunks concatenate to the payload, there are
  \<open>max 1 \<lceil>n / 16000\<rceil>\<close> of them for a payload of \<open>n\<close> bytes (so more than one as soon as
  the payload is longer than 16000 bytes), and each literal read alone gives its chunk.
\<close>

theorem encodePythonStringToC_roundtrip:
  "c_decode (encodePythonStringToC value) = Some value
   \<and> encodePythonStringToC value =
       join_with_space (map encodePythonStringToC_inner (payload_chunks value))
   \<and> concat (payload_chunks value) = value
   \<and> length (payload_chunks value) = max 1 ((length value + 15999) div 16000)
   \<and> map (\<lambda>chunk. c_decode (encodePythonStringToC_inner chunk)) (payload_chunks value)
       = map Some (payload_chunks value)"
proof -
  have "map (\<lambda>chunk. c_decode (encodePythonStringToC_inner chunk)) (payload_chunks value)
        = map Some (payload_chunks value)"
    by (simp add: decode_inner_alone)
  then show ?thesis
    using roundtrip [of "value"] encode_as_chunks [of "value"] concat_payload_chunks [of "value"]
      length_payload_chunks [of "value"]
    by blast
qed

text \<open>
  What \<^verbatim>\<open>encodePythonIdentifierToC\<close> writes for one character, and that it works
  character by character.
\<close>

lemma encodePythonIdentifierToC_char:
  "encodePythonIdentifierToC [c] =
     (if identifier_char c then [c]
      else if c = CHR ''.'' then ''$''
      else ''$$'' @ fmt_d (of_char c) @ ''$'')"
  by (simp add: encodePythonIdentifierToC_def r_def)

lemma encodePythonIdentifierToC_append:
  "encodePythonIdentifierToC (s @ t) = encodePythonIdentifierToC s @ encodePythonIdentifierToC t"
  by (simp add: encodePythonIdentifierToC_def)

text \<open>
  Claim C9. \<^verbatim>\<open>encodePythonIdentifierToC\<close> is meant to be reversible, but it is not
  injective: a dot becomes one dollar sign and the dollar sign itself becomes
  \<^verbatim>\<open>$$36$\<close>, so the five characters \<^verbatim>\<open>..36.\<close> and the single character \<^verbatim>\<open>$\<close>
  have the same encoding.
\<close>

theorem encodePythonIdentifierToC_collision:
  "encodePythonIdentifierToC ''..36.'' = ''$$36$''
   \<and> encodePythonIdentifierToC ''$'' = ''$$36$''
   \<and> ''..36.'' \<noteq> ''$''"
  by code_simp

section \<open>Properties of the constant nodes\<close>

lemma init_eq:
  "isConstant e c \<Longrightarrow>
   ExpressionConstantRefBase_init e k c sr up log =
     Inr (\<lparr>kind = k, constant_value = c, source_ref = sr, user_provided = up\<rparr>,
          log @ too_large_diagnostics e c sr up)"
  by (simp add: ExpressionConstantRefBase_init_def too_large_diagnostics_def size_threshold_def
        Let_def split: sum.splits)

lemma factory_eq:
  assumes "isConstant e c" "kind_for c = Some k"
  shows "makeConstantRefNode e c sr up log =
     Inr (\<lparr>kind = k, constant_value = c, source_ref = sr, user_provided = up\<rparr>,
          log @ too_large_diagnostics e c sr up)"
proof (cases c)
  case (PBool b)
  then show ?thesis using assms
    by (cases b) (auto simp: makeConstantRefNode_def init_eq)
next
  case (PDict kvs)
  then show ?thesis using assms
    by (cases "kvs = []") (auto simp: makeConstantRefNode_def the_empty_dict_def init_eq)
qed (use assms in \<open>auto simp: makeConstantRefNode_def init_eq\<close>)

lemma factory_unknown_type:
  "kind_for c = None \<Longrightarrow> makeConstantRefNode e c sr up log = Inl AssertionError"
  by (cases c) (simp_all add: makeConstantRefNode_def)

lemma sequence_len:
  "subscriptable_sequence c \<Longrightarrow> py_iter c = Inr vs \<Longrightarrow> py_len c = Inr (length vs)"
  by (cases c) (auto simp: subscriptable_sequence_def)

lemma sequence_getitem:
  "subscriptable_sequence c \<Longrightarrow> py_iter c = Inr vs \<Longrightarrow> 0 \<le> i \<Longrightarrow> i < int (length vs) \<Longrightarrow>
   py_getitem c i = Inr (vs ! nat i)"
  by (cases c) (auto simp: subscriptable_sequence_def seq_index_def Let_def)

lemma too_large_empty_bytes: "too_large_diagnostics e (bytes_literal e []) sr up = []"
  by (simp add: too_large_diagnostics_def bytes_literal_def size_threshold_def)

lemma kind_for_empty_bytes:
  "kind_for (bytes_literal e []) =
     Some (if python_version e < 300 then EXPRESSION_CONSTANT_STR_REF
           else EXPRESSION_CONSTANT_BYTES_REF)"
  by (simp add: bytes_literal_def)

lemmas env_defs = reference_env_def base_env_def base_only_env_def

lemma too_large_zero_string: "too_large_diagnostics e (PStr ''0'') sr up = []"
  by (simp add: too_large_diagnostics_def size_threshold_def)

lemma rewritten_py_tuple:
  "rewritten_to_tuple (type_of c) \<Longrightarrow> py_iter c = Inr vs \<Longrightarrow> py_tuple c = Inr (PTuple vs)"
  by (simp add: py_tuple_def)

lemma getMappingPairs_nonempty_fails:
  assumes "constant_value self = PDict (item # items)"
  shows "\<exists>err. getMappingPairs e self log = Inl err"
proof -
  obtain key val where "item = (key, val)" by (cases item)
  then show ?thesis using assms
    by (simp add: getMappingPairs_def isMapping_def split: sum.splits prod.splits)
qed

text \<open>
  \<^verbatim>\<open>getMappingStringKeyPairs\<close> returns, for a mapping whose values the factory accepts,
  the pairs of each key itself and the node of its value, in the order of the mapping.
\<close>

lemma getMappingStringKeyPairs_loop_eq:
  assumes "list_all (\<lambda>kv. isConstant e (snd kv) \<and> kind_for (snd kv) \<noteq> None) items"
  shows "getMappingStringKeyPairs_loop e sr items pairs log =
     Inr (pairs @ map (\<lambda>kv. (fst kv, value_node sr (snd kv))) items,
          log @ concat (map (\<lambda>kv. too_large_diagnostics e (snd kv) sr False) items))"
  using assms
proof (induction items arbitrary: pairs log)
  case Nil
  show ?case by simp
next
  case (Cons item items)
  obtain key val where item: "item = (key, val)" by (cases item)
  from Cons.prems item obtain k where c: "isConstant e val" and k: "kind_for val = Some k"
    by auto
  from Cons.prems have rest: "list_all (\<lambda>kv. isConstant e (snd kv) \<and> kind_for (snd kv) \<noteq> None) items"
    by simp
  show ?case
    by (simp add: item factory_eq [OF c k] Cons.IH [OF rest] value_node_def k)
qed

lemma getMappingStringKeyPairs_eq:
  assumes "constant_value self = PDict items"
    and "list_all (\<lambda>kv. isConstant e (snd kv) \<and> kind_for (snd kv) \<noteq> None) items"
  shows "getMappingStringKeyPairs e self log =
     Inr (map (\<lambda>kv. (fst kv, value_node (source_ref self) (snd kv))) items,
          log @ concat (map (\<lambda>kv. too_large_diagnostics e (snd kv) (source_ref self) False) items))"
  using assms
  by (simp add: getMappingStringKeyPairs_def isMapping_def getMappingStringKeyPairs_loop_eq)

text \<open>
  Claim C1. \<^verbatim>\<open>getMappingPairs\<close> is meant to return the key and value nodes of a mapping
  constant in order, but it calls \<^verbatim>\<open>append\<close> with two arguments: for the constant
  \<^verbatim>\<open>{1: 2}\<close> it raises \<^verbatim>\<open>TypeError\<close> (and so it does for every mapping that is not
  empty, as the lemma before shows). \<^verbatim>\<open>getMappingStringKeyPairs\<close> appends one pair
  and returns, for \<^verbatim>\<open>{'a': 1}\<close>, the key itself with the node of the value.
\<close>

theorem getMappingPairs_raises:
  "getMappingPairs reference_env
      \<lparr>kind = EXPRESSION_CONSTANT_DICT_REF, constant_value = PDict [(PInt 1, PInt 2)],
       source_ref = SourceCodeReference ''m.py:1'', user_provided = True\<rparr> []
     = Inl TypeError
   \<and> getMappingStringKeyPairs reference_env
      \<lparr>kind = EXPRESSION_CONSTANT_DICT_REF, constant_value = PDict [(PStr ''a'', PInt 1)],
       source_ref = SourceCodeReference ''m.py:1'', user_provided = True\<rparr> []
     = Inr ([(PStr ''a'',
              \<lparr>kind = EXPRESSION_CONSTANT_INT_REF, constant_value = PInt 1,
               source_ref = SourceCodeReference ''m.py:1'', user_provided = False\<rparr>)], [])"
  by (simp add: getMappingPairs_def getMappingStringKeyPairs_def isMapping_def env_defs
        makeConstantRefNode_def ExpressionConstantRefBase_init_def)

text \<open>
  Claim C2, as the code has it. For an \<^verbatim>\<open>int\<close> or \<^verbatim>\<open>long\<close> constructor node without
  a value operand: when the flag \<^verbatim>\<open>base_only_value\<close> is false (the runtime raises on a
  call with only a base), the constructor leaves the value slot empty and
  \<^verbatim>\<open>computeExpression\<close> of a node with a base hands the call \<^verbatim>\<open>builtin(base = 2)\<close> to the
  compile-time evaluation helper of the collection; with no base either it runs the
  shared fold on no operands. When the flag is true the constructor fills the value
  slot with the constant \<^verbatim>\<open>'0'\<close>, and \<^verbatim>\<open>computeExpression\<close> runs the shared fold on
  that operand, followed by the base when there is one.
\<close>

theorem int_long_computeExpression:
  "(\<not> base_only_value e \<longrightarrow>
      (\<exists>err. call_base_2 e builtin_int = Inl err)
      \<and> ExpressionBuiltinIntLongBase_init e b None base sr log =
          Inr (ExpressionBuiltinIntLong b None base sr, log)
      \<and> ExpressionBuiltinIntLongBase_computeExpression e b None (Some ba) sr collection =
          getCompileTimeComputationResult e collection
            (ExpressionBuiltinIntLong b None (Some ba) sr) (call_base_2 e b)
            (builtin_name b @ '' built-in call with only base argument'')
      \<and> ExpressionBuiltinIntLongBase_computeExpression e b None None sr collection =
          computeBuiltinSpec e collection (ExpressionBuiltinIntLong b None None sr) [])
   \<and> (base_only_value e \<longrightarrow> isConstant e (PStr ''0'') \<longrightarrow>
      ExpressionBuiltinIntLongBase_init e b None base sr log =
          Inr (ExpressionBuiltinIntLong b (Some (zero_string_node sr)) base sr, log)
      \<and> ExpressionBuiltinIntLongBase_computeExpression e b (Some (zero_string_node sr)) (Some ba)
            sr collection =
          computeBuiltinSpec e collection
            (ExpressionBuiltinIntLong b (Some (zero_string_node sr)) (Some ba) sr)
            [zero_string_node sr, ba]
      \<and> ExpressionBuiltinIntLongBase_computeExpression e b (Some (zero_string_node sr)) None
            sr collection =
          computeBuiltinSpec e collection
            (ExpressionBuiltinIntLong b (Some (zero_string_node sr)) None sr)
            [zero_string_node sr])"
proof (intro conjI impI)
  assume "\<not> base_only_value e"
  then show "\<exists>err. call_base_2 e builtin_int = Inl err"
    by (simp add: base_only_value_def split: sum.splits)
next
  assume "\<not> base_only_value e"
  then show "ExpressionBuiltinIntLongBase_init e b None base sr log =
          Inr (ExpressionBuiltinIntLong b None base sr, log)"
    by (simp add: ExpressionBuiltinIntLongBase_init_def)
next
  assume "\<not> base_only_value e"
  then show "ExpressionBuiltinIntLongBase_computeExpression e b None (Some ba) sr collection =
          getCompileTimeComputationResult e collection
            (ExpressionBuiltinIntLong b None (Some ba) sr) (call_base_2 e b)
            (builtin_name b @ '' built-in call with only base argument'')"
    by (simp add: ExpressionBuiltinIntLongBase_computeExpression_def)
next
  show "ExpressionBuiltinIntLongBase_computeExpression e b None None sr collection =
          computeBuiltinSpec e collection (ExpressionBuiltinIntLong b None None sr) []"
    by (simp add: ExpressionBuiltinIntLongBase_computeExpression_def)
next
  assume f: "base_only_value e" and c: "isConstant e (PStr ''0'')"
  have k: "kind_for (PStr ''0'') = Some EXPRESSION_CONSTANT_STR_REF" by simp
  show "ExpressionBuiltinIntLongBase_init e b None base sr log =
          Inr (ExpressionBuiltinIntLong b (Some (zero_string_node sr)) base sr, log)"
    using f
    by (simp add: ExpressionBuiltinIntLongBase_init_def makeConstantReplacementNode_def
          factory_eq [OF c k] too_large_zero_string zero_string_node_def)
next
  show "ExpressionBuiltinIntLongBase_computeExpression e b (Some (zero_string_node sr)) (Some ba)
            sr collection =
          computeBuiltinSpec e collection
            (ExpressionBuiltinIntLong b (Some (zero_string_node sr)) (Some ba) sr)
            [zero_string_node sr, ba]"
    by (simp add: ExpressionBuiltinIntLongBase_computeExpression_def)
next
  show "ExpressionBuiltinIntLongBase_computeExpression e b (Some (zero_string_node sr)) None
            sr collection =
          computeBuiltinSpec e collection
            (ExpressionBuiltinIntLong b (Some (zero_string_node sr)) None sr)
            [zero_string_node sr]"
    by (simp add: ExpressionBuiltinIntLongBase_computeExpression_def)
qed

lemma reference_int_calls:
  "reference_simulateCall builtin_int [] = Some (Inr (PInt 0))"
  "reference_simulateCall builtin_long [] = Some (Inr (PLong 0))"
  "reference_simulateCall builtin_int [PStr ''0''] = Some (Inr (PInt 0))"
  "reference_simulateCall builtin_int [PStr ''0'', PInt 2] = Some (Inr (PInt 0))"
  "reference_simulateCall builtin_int [PStr ''-5''] = Some (Inr (PInt (- 5)))"
  "reference_simulateCall builtin_int [PStr ''ff'', PInt 16] = Some (Inr (PInt 255))"
  "reference_simulateCall builtin_int [PStr ''abc''] = Some (Inl ValueError)"
  by code_simp+

text \<open>
  On the reference host the flag is false: the \<^verbatim>\<open>int\<close> node and the \<^verbatim>\<open>long\<close> node with
  only a base are replaced by a deferred \<^verbatim>\<open>TypeError\<close> with tag \<open>new_raise\<close>, and the
  nodes without operands fold to the constant zero of their type. On a host that accepts
  the call, the node built with only a base holds \<^verbatim>\<open>'0'\<close> and that base and folds to
  the constant zero (\<^verbatim>\<open>int('0', 2)\<close>), and the node built without operands holds
  \<^verbatim>\<open>'0'\<close> and folds to the constant zero as well.
\<close>

theorem int_long_computeExpression_witness:
  "ExpressionBuiltinIntLongBase_computeExpression reference_env builtin_int None (Some two_node)
        (SourceCodeReference ''m.py:1'') \<lparr>raise_exits = []\<rparr>
       = ((ExpressionRaiseException ''TypeError'' [] (SourceCodeReference ''m.py:1''),
           Some new_raise, Some ''int built-in call with only base argument''),
          \<lparr>raise_exits = [TypeError]\<rparr>)
   \<and> ExpressionBuiltinIntLongBase_computeExpression reference_env builtin_long None (Some two_node)
        (SourceCodeReference ''m.py:1'') \<lparr>raise_exits = []\<rparr>
       = ((ExpressionRaiseException ''TypeError'' [] (SourceCodeReference ''m.py:1''),
           Some new_raise, Some ''long built-in call with only base argument''),
          \<lparr>raise_exits = [TypeError]\<rparr>)
   \<and> ExpressionBuiltinIntLongBase_computeExpression reference_env builtin_int None None
        (SourceCodeReference ''m.py:1'') \<lparr>raise_exits = []\<rparr>
       = ((zero_int_node, Some new_constant, Some ''Built-in call pre-computed.''),
          \<lparr>raise_exits = []\<rparr>)
   \<and> ExpressionBuiltinIntLongBase_computeExpression reference_env builtin_long None None
        (SourceCodeReference ''m.py:1'') \<lparr>raise_exits = []\<rparr>
       = ((zero_long_node, Some new_constant, Some ''Built-in call pre-computed.''),
          \<lparr>raise_exits = []\<rparr>)
   \<and> ExpressionBuiltinIntLongBase_init base_only_env builtin_int None (Some two_node)
        (SourceCodeReference ''m.py:1'') []
       = Inr (ExpressionBuiltinIntLong builtin_int
                (Some (zero_string_node (SourceCodeReference ''m.py:1''))) (Some two_node)
                (SourceCodeReference ''m.py:1''), [])
   \<and> ExpressionBuiltinIntLongBase_computeExpression base_only_env builtin_int
        (Some (zero_string_node (SourceCodeReference ''m.py:1''))) (Some two_node)
        (SourceCodeReference ''m.py:1'') \<lparr>raise_exits = []\<rparr>
       = ((zero_int_node, Some new_constant, Some ''Built-in call pre-computed.''),
          \<lparr>raise_exits = []\<rparr>)
   \<and> ExpressionBuiltinIntLongBase_init base_only_env builtin_int None None
        (SourceCodeReference ''m.py:1'') []
       = Inr (ExpressionBuiltinIntLong builtin_int
                (Some (zero_string_node (SourceCodeReference ''m.py:1''))) None
                (SourceCodeReference ''m.py:1''), [])
   \<and> ExpressionBuiltinIntLongBase_computeExpression base_only_env builtin_int
        (Some (zero_string_node (SourceCodeReference ''m.py:1''))) None
        (SourceCodeReference ''m.py:1'') \<lparr>raise_exits = []\<rparr>
       = ((zero_int_node, Some new_constant, Some ''Built-in call pre-computed.''),
          \<lparr>raise_exits = []\<rparr>)"
  using int_long_computeExpression
          [where e = reference_env and b = builtin_int and ba = two_node
             and sr = "SourceCodeReference ''m.py:1''" and collection = "\<lparr>raise_exits = []\<rparr>"]
        int_long_computeExpression
          [where e = reference_env and b = builtin_long and ba = two_node
             and sr = "SourceCodeReference ''m.py:1''" and collection = "\<lparr>raise_exits = []\<rparr>"]
        int_long_computeExpression
          [where e = base_only_env and b = builtin_int and base = "Some two_node"
             and ba = two_node and log = "[]"
             and sr = "SourceCodeReference ''m.py:1''" and collection = "\<lparr>raise_exits = []\<rparr>"]
        int_long_computeExpression
          [where e = base_only_env and b = builtin_int and base = None and log = "[]"
             and sr = "SourceCodeReference ''m.py:1''" and collection = "\<lparr>raise_exits = []\<rparr>"]
  by (simp add: base_only_value_def env_defs make_integer_def reference_int_calls
        spec_getCompileTimeComputationResult_def spec_computeBuiltinSpec_def
        spec_wrapExpressionWithSideEffects_def
        spec_makeRaiseExceptionReplacementExpression_def onExceptionRaiseExit_def two_node_def
        zero_int_node_def zero_long_node_def zero_string_node_def extractSideEffects_def
        makeConstantRefNode_def ExpressionConstantRefBase_init_def)

text \<open>
  The claim as it was stated fails: with the flag false and only a base given, the node
  is not left unchanged.
\<close>

theorem int_long_base_only_counterexample:
  "\<not> base_only_value reference_env
   \<and> ExpressionBuiltinIntLongBase_init reference_env builtin_int None (Some two_node)
        (SourceCodeReference ''m.py:1'') []
       = Inr (ExpressionBuiltinIntLong builtin_int None (Some two_node)
                (SourceCodeReference ''m.py:1''), [])
   \<and> ExpressionBuiltinIntLongBase_computeExpression reference_env builtin_int None (Some two_node)
        (SourceCodeReference ''m.py:1'') \<lparr>raise_exits = []\<rparr>
       = ((ExpressionRaiseException ''TypeError'' [] (SourceCodeReference ''m.py:1''),
           Some new_raise, Some ''int built-in call with only base argument''),
          \<lparr>raise_exits = [TypeError]\<rparr>)"
  by (simp add: base_only_value_def env_defs ExpressionBuiltinIntLongBase_init_def
        ExpressionBuiltinIntLongBase_computeExpression_def
        spec_getCompileTimeComputationResult_def spec_wrapExpressionWithSideEffects_def
        spec_makeRaiseExceptionReplacementExpression_def onExceptionRaiseExit_def two_node_def
        extractSideEffects_def)

text \<open>
  Claim C4. \<^verbatim>\<open>computeExpressionIter1\<close>: for a list, set, frozenset or dict constant the
  iteration target becomes the tuple constant of the values that iterating the constant
  yields, with the source reference and the \<^verbatim>\<open>user_provided\<close> flag of the constant, and
  the result is the iteration node with tag \<open>new_constant\<close>; for a constant of another
  kind that is not iterable the collection is told that a \<^verbatim>\<open>TypeError\<close> may be raised
  and nothing else changes; for any other iterable constant nothing changes.
\<close>

theorem computeExpressionIter1_cases:
  "(rewritten_to_tuple (type_of (constant_value self)) \<longrightarrow>
      py_iter (constant_value self) = Inr vs \<longrightarrow> isConstant e (PTuple vs) \<longrightarrow>
      computeExpressionIter1 e self iter_node st =
        Inr ((iter_node, Some new_constant,
              Some (''Iteration over constant '' @ type_name (type_of (constant_value self))
                      @ '' changed to tuple.'')),
             st\<lparr>diagnostics := diagnostics st
                    @ too_large_diagnostics e (PTuple vs) (source_ref self) (user_provided self),
                parent_slot := ExpressionConstantRef
                    \<lparr>kind = EXPRESSION_CONSTANT_TUPLE_REF, constant_value = PTuple vs,
                     source_ref = source_ref self, user_provided = user_provided self\<rparr>\<rparr>))
   \<and> (\<not> rewritten_to_tuple (type_of (constant_value self)) \<longrightarrow>
      \<not> isIterableConstant e (constant_value self) \<longrightarrow>
      computeExpressionIter1 e self iter_node st =
        Inr ((iter_node, None, None),
             st\<lparr>collection_of := onExceptionRaiseExit (collection_of st) TypeError\<rparr>))
   \<and> (\<not> rewritten_to_tuple (type_of (constant_value self)) \<longrightarrow>
      isIterableConstant e (constant_value self) \<longrightarrow>
      computeExpressionIter1 e self iter_node st = Inr ((iter_node, None, None), st))"
proof (intro conjI impI)
  assume r: "rewritten_to_tuple (type_of (constant_value self))"
    and i: "py_iter (constant_value self) = Inr vs" and c: "isConstant e (PTuple vs)"
  have k: "kind_for (PTuple vs) = Some EXPRESSION_CONSTANT_TUPLE_REF" by simp
  show "computeExpressionIter1 e self iter_node st =
        Inr ((iter_node, Some new_constant,
              Some (''Iteration over constant '' @ type_name (type_of (constant_value self))
                      @ '' changed to tuple.'')),
             st\<lparr>diagnostics := diagnostics st
                    @ too_large_diagnostics e (PTuple vs) (source_ref self) (user_provided self),
                parent_slot := ExpressionConstantRef
                    \<lparr>kind = EXPRESSION_CONSTANT_TUPLE_REF, constant_value = PTuple vs,
                     source_ref = source_ref self, user_provided = user_provided self\<rparr>\<rparr>)"
    using r rewritten_py_tuple [OF r i]
    by (simp add: computeExpressionIter1_def rewritten_to_tuple_def factory_eq [OF c k]
          replaceWith_def Let_def)
next
  assume "\<not> rewritten_to_tuple (type_of (constant_value self))"
    and "\<not> isIterableConstant e (constant_value self)"
  then show "computeExpressionIter1 e self iter_node st =
        Inr ((iter_node, None, None),
             st\<lparr>collection_of := onExceptionRaiseExit (collection_of st) TypeError\<rparr>)"
    by (simp add: computeExpressionIter1_def rewritten_to_tuple_def Let_def)
next
  assume "\<not> rewritten_to_tuple (type_of (constant_value self))"
    and "isIterableConstant e (constant_value self)"
  then show "computeExpressionIter1 e self iter_node st = Inr ((iter_node, None, None), st)"
    by (simp add: computeExpressionIter1_def rewritten_to_tuple_def Let_def)
qed

theorem computeExpressionIter1_cases_witness:
  "computeExpressionIter1 reference_env
      \<lparr>kind = EXPRESSION_CONSTANT_SET_REF, constant_value = PSet [PInt 1, PInt 2, PInt 3],
       source_ref = SourceCodeReference ''m.py:1'', user_provided = True\<rparr>
      (ExpressionOther 0 (SourceCodeReference ''m.py:1'')) example_state
     = Inr ((ExpressionOther 0 (SourceCodeReference ''m.py:1''), Some new_constant,
             Some ''Iteration over constant set changed to tuple.''),
            example_state\<lparr>parent_slot := ExpressionConstantRef
               \<lparr>kind = EXPRESSION_CONSTANT_TUPLE_REF, constant_value = PTuple [PInt 1, PInt 2, PInt 3],
                source_ref = SourceCodeReference ''m.py:1'', user_provided = True\<rparr>\<rparr>)
   \<and> computeExpressionIter1 reference_env
      \<lparr>kind = EXPRESSION_CONSTANT_INT_REF, constant_value = PInt 5,
       source_ref = SourceCodeReference ''m.py:1'', user_provided = True\<rparr>
      (ExpressionOther 0 (SourceCodeReference ''m.py:1'')) example_state
     = Inr ((ExpressionOther 0 (SourceCodeReference ''m.py:1''), None, None),
            example_state\<lparr>collection_of := \<lparr>raise_exits = [TypeError]\<rparr>\<rparr>)
   \<and> computeExpressionIter1 reference_env
      \<lparr>kind = EXPRESSION_CONSTANT_STR_REF, constant_value = PStr ''ab'',
       source_ref = SourceCodeReference ''m.py:1'', user_provided = True\<rparr>
      (ExpressionOther 0 (SourceCodeReference ''m.py:1'')) example_state
     = Inr ((ExpressionOther 0 (SourceCodeReference ''m.py:1''), None, None), example_state)"
  using computeExpressionIter1_cases
          [where e = reference_env and vs = "[PInt 1, PInt 2, PInt 3]" and st = example_state
             and iter_node = "ExpressionOther 0 (SourceCodeReference ''m.py:1'')"
             and self = "\<lparr>kind = EXPRESSION_CONSTANT_SET_REF,
                 constant_value = PSet [PInt 1, PInt 2, PInt 3],
                 source_ref = SourceCodeReference ''m.py:1'', user_provided = True\<rparr>"]
        computeExpressionIter1_cases
          [where e = reference_env and st = example_state
             and iter_node = "ExpressionOther 0 (SourceCodeReference ''m.py:1'')"
             and self = "\<lparr>kind = EXPRESSION_CONSTANT_INT_REF, constant_value = PInt 5,
                 source_ref = SourceCodeReference ''m.py:1'', user_provided = True\<rparr>"]
        computeExpressionIter1_cases
          [where e = reference_env and st = example_state
             and iter_node = "ExpressionOther 0 (SourceCodeReference ''m.py:1'')"
             and self = "\<lparr>kind = EXPRESSION_CONSTANT_STR_REF, constant_value = PStr ''ab'',
                 source_ref = SourceCodeReference ''m.py:1'', user_provided = True\<rparr>"]
  by (simp add: env_defs rewritten_to_tuple_def spec_isIterableConstant_def
        too_large_diagnostics_def onExceptionRaiseExit_def example_state_def)

text \<open>
  Where the subscript follows the iteration order, \<^verbatim>\<open>getIterationValue\<close> does what is
  asked of it. For a constant that is a string, a \<^verbatim>\<open>bytes\<close> object, a tuple or a list,
  with \<open>vs\<close> the values that iterating it yields: \<^verbatim>\<open>getIterationValue(count)\<close> fails
  its assertion when \<open>count\<close> is at least the length; for \<open>0 \<le> count\<close> below the length it
  returns the node that the factory builds for \<open>vs ! count\<close>, at the source reference of
  the constant and not user provided.
\<close>

theorem getIterationValue_sequence:
  assumes "subscriptable_sequence (constant_value self)"
    and "py_iter (constant_value self) = Inr vs"
  shows "(int (length vs) \<le> count \<longrightarrow> getIterationValue e self count log = Inl AssertionError)
    \<and> (0 \<le> count \<longrightarrow> count < int (length vs) \<longrightarrow> isConstant e (vs ! nat count) \<longrightarrow>
         kind_for (vs ! nat count) = Some k \<longrightarrow>
         getIterationValue e self count log =
           Inr (\<lparr>kind = k, constant_value = vs ! nat count, source_ref = source_ref self,
                  user_provided = False\<rparr>,
                log @ too_large_diagnostics e (vs ! nat count) (source_ref self) False))"
proof (intro conjI impI)
  assume "int (length vs) \<le> count"
  then show "getIterationValue e self count log = Inl AssertionError"
    using sequence_len [OF assms] by (simp add: getIterationValue_def)
next
  assume c: "0 \<le> count" "count < int (length vs)"
    and k: "isConstant e (vs ! nat count)" "kind_for (vs ! nat count) = Some k"
  show "getIterationValue e self count log =
           Inr (\<lparr>kind = k, constant_value = vs ! nat count, source_ref = source_ref self,
                  user_provided = False\<rparr>,
                log @ too_large_diagnostics e (vs ! nat count) (source_ref self) False)"
    using sequence_len [OF assms] sequence_getitem [OF assms c] c
    by (simp add: getIterationValue_def factory_eq [OF k])
qed

theorem getIterationValue_sequence_witness:
  "getIterationValue reference_env
      \<lparr>kind = EXPRESSION_CONSTANT_TUPLE_REF, constant_value = PTuple [PInt 1, PInt 2, PInt 3],
       source_ref = SourceCodeReference ''m.py:1'', user_provided = True\<rparr> 3 []
     = Inl AssertionError
   \<and> getIterationValue reference_env
      \<lparr>kind = EXPRESSION_CONSTANT_TUPLE_REF, constant_value = PTuple [PInt 1, PInt 2, PInt 3],
       source_ref = SourceCodeReference ''m.py:1'', user_provided = True\<rparr> 1 []
     = Inr (\<lparr>kind = EXPRESSION_CONSTANT_INT_REF, constant_value = PInt 2,
             source_ref = SourceCodeReference ''m.py:1'', user_provided = False\<rparr>, [])"
  using getIterationValue_sequence
          [where self = "\<lparr>kind = EXPRESSION_CONSTANT_TUPLE_REF,
                 constant_value = PTuple [PInt 1, PInt 2, PInt 3],
                 source_ref = SourceCodeReference ''m.py:1'', user_provided = True\<rparr>"
             and vs = "[PInt 1, PInt 2, PInt 3]" and count = 3 and e = reference_env
             and log = "[]"]
        getIterationValue_sequence
          [where self = "\<lparr>kind = EXPRESSION_CONSTANT_TUPLE_REF,
                 constant_value = PTuple [PInt 1, PInt 2, PInt 3],
                 source_ref = SourceCodeReference ''m.py:1'', user_provided = True\<rparr>"
             and vs = "[PInt 1, PInt 2, PInt 3]" and count = 1 and e = reference_env
             and k = EXPRESSION_CONSTANT_INT_REF and log = "[]"]
  by (simp add: subscriptable_sequence_def env_defs too_large_diagnostics_def)

text \<open>
  A dictionary is subscripted by key, and a key is found by its value: the float 1.0
  is the key 1.
\<close>

lemma float_key_lookup:
  "py_getitem (PDict [(PFloat 0x3FF0000000000000, PStr ''x''), (PFloat 0x4000000000000000, PStr ''y'')]) 1
     = Inr (PStr ''x'')"
  "py_getitem (PDict [(PFloat 0x3FF0000000000000, PStr ''x''), (PFloat 0x4000000000000000, PStr ''y'')]) 2
     = Inr (PStr ''y'')"
  "py_getitem (PDict [(PFloat 0x3FF0000000000000, PStr ''x''), (PFloat 0x4000000000000000, PStr ''y'')]) 3
     = Inl KeyError"
  by code_simp+

text \<open>
  Claim C5. \<^verbatim>\<open>getIterationValue\<close> is meant to return, for every iterable constant and
  every index below the iteration length, the node of the element at that position. It
  subscripts the constant instead of iterating it. The set \<^verbatim>\<open>{1, 2, 3}\<close> is iterable
  (\<^verbatim>\<open>canPredictIterationValues\<close> holds and \<^verbatim>\<open>getIterationValues\<close> returns the three
  nodes), yet \<^verbatim>\<open>getIterationValue(0)\<close> raises \<^verbatim>\<open>TypeError\<close>. For the dictionary
  \<^verbatim>\<open>{0: 'a'}\<close> iteration yields the key 0, yet \<^verbatim>\<open>getIterationValue(0)\<close> returns the
  node of the value \<^verbatim>\<open>'a'\<close>.
\<close>

theorem getIterationValue_unordered_fails:
  "canPredictIterationValues reference_env set_123
   \<and> getIterationValues reference_env set_123 []
       = Inr ([\<lparr>kind = EXPRESSION_CONSTANT_INT_REF, constant_value = PInt 1,
                 source_ref = SourceCodeReference ''m.py:1'', user_provided = True\<rparr>,
               \<lparr>kind = EXPRESSION_CONSTANT_INT_REF, constant_value = PInt 2,
                 source_ref = SourceCodeReference ''m.py:1'', user_provided = True\<rparr>,
               \<lparr>kind = EXPRESSION_CONSTANT_INT_REF, constant_value = PInt 3,
                 source_ref = SourceCodeReference ''m.py:1'', user_provided = True\<rparr>], [])
   \<and> getIterationValue reference_env set_123 0 [] = Inl TypeError
   \<and> canPredictIterationValues reference_env dict_0_a
   \<and> getIterationValues reference_env dict_0_a []
       = Inr ([\<lparr>kind = EXPRESSION_CONSTANT_INT_REF, constant_value = PInt 0,
                 source_ref = SourceCodeReference ''m.py:1'', user_provided = True\<rparr>], [])
   \<and> getIterationValue reference_env dict_0_a 0 []
       = Inr (\<lparr>kind = EXPRESSION_CONSTANT_STR_REF, constant_value = PStr ''a'',
                source_ref = SourceCodeReference ''m.py:1'', user_provided = False\<rparr>, [])"
  by (simp add: canPredictIterationValues_def isKnownToBeIterable_def getIterationValues_def
        getIterationValue_def env_defs spec_isIterableConstant_def set_123_def dict_0_a_def
        makeConstantRefNode_def ExpressionConstantRefBase_init_def)

text \<open>
  Claim C6, as the code has it. The constructor of a constant node writes the
  diagnostic for a payload longer than the threshold (1000 for the text kinds, 256
  otherwise) when the node is not user provided and the compiler runs in debug mode; it
  writes none for a user provided node, and none outside debug mode.
\<close>

theorem constant_too_large_diagnostic:
  assumes "isConstant e c"
  shows "(isDebug e \<longrightarrow> \<not> up \<longrightarrow> py_len c = Inr n \<longrightarrow> size_threshold c < n \<longrightarrow>
           ExpressionConstantRefBase_init e k c sr up log =
             Inr (\<lparr>kind = k, constant_value = c, source_ref = sr, user_provided = up\<rparr>,
                  log @ [Too_large_constant (type_of c) n (getAsString sr)]))
       \<and> (up \<longrightarrow>
           ExpressionConstantRefBase_init e k c sr up log =
             Inr (\<lparr>kind = k, constant_value = c, source_ref = sr, user_provided = up\<rparr>, log))
       \<and> (\<not> isDebug e \<longrightarrow>
           ExpressionConstantRefBase_init e k c sr up log =
             Inr (\<lparr>kind = k, constant_value = c, source_ref = sr, user_provided = up\<rparr>, log))"
  using assms by (simp add: init_eq too_large_diagnostics_def)

theorem constant_too_large_diagnostic_witness:
  "ExpressionConstantRefBase_init reference_env EXPRESSION_CONSTANT_STR_REF
      (PStr (replicate 1001 (CHR ''a''))) (SourceCodeReference ''m.py:1'') False []
     = Inr (\<lparr>kind = EXPRESSION_CONSTANT_STR_REF, constant_value = PStr (replicate 1001 (CHR ''a'')),
             source_ref = SourceCodeReference ''m.py:1'', user_provided = False\<rparr>,
            [Too_large_constant T_str 1001 ''m.py:1''])
   \<and> ExpressionConstantRefBase_init reference_env EXPRESSION_CONSTANT_STR_REF
      (PStr (replicate 1001 (CHR ''a''))) (SourceCodeReference ''m.py:1'') True []
     = Inr (\<lparr>kind = EXPRESSION_CONSTANT_STR_REF, constant_value = PStr (replicate 1001 (CHR ''a'')),
             source_ref = SourceCodeReference ''m.py:1'', user_provided = True\<rparr>, [])
   \<and> ExpressionConstantRefBase_init (reference_env\<lparr>isDebug := False\<rparr>) EXPRESSION_CONSTANT_STR_REF
      (PStr (replicate 1001 (CHR ''a''))) (SourceCodeReference ''m.py:1'') False []
     = Inr (\<lparr>kind = EXPRESSION_CONSTANT_STR_REF, constant_value = PStr (replicate 1001 (CHR ''a'')),
             source_ref = SourceCodeReference ''m.py:1'', user_provided = False\<rparr>, [])"
  using constant_too_large_diagnostic
          [where e = reference_env and c = "PStr (replicate 1001 (CHR ''a''))" and up = False
             and n = 1001 and k = EXPRESSION_CONSTANT_STR_REF
             and sr = "SourceCodeReference ''m.py:1''" and log = "[]"]
        constant_too_large_diagnostic
          [where e = reference_env and c = "PStr (replicate 1001 (CHR ''a''))" and up = True
             and k = EXPRESSION_CONSTANT_STR_REF
             and sr = "SourceCodeReference ''m.py:1''" and log = "[]"]
        constant_too_large_diagnostic
          [where e = "reference_env\<lparr>isDebug := False\<rparr>"
             and c = "PStr (replicate 1001 (CHR ''a''))" and up = False
             and k = EXPRESSION_CONSTANT_STR_REF
             and sr = "SourceCodeReference ''m.py:1''" and log = "[]"]
  by (simp add: env_defs size_threshold_def)

text \<open>
  The claim as it was stated fails outside debug mode: a synthesized string constant of
  1001 characters is built without a diagnostic.
\<close>

theorem constant_too_large_counterexample:
  "\<not> user_provided
        \<lparr>kind = EXPRESSION_CONSTANT_STR_REF, constant_value = PStr (replicate 1001 (CHR ''a'')),
         source_ref = SourceCodeReference ''m.py:1'', user_provided = False\<rparr>
   \<and> py_len (PStr (replicate 1001 (CHR ''a''))) = Inr 1001
   \<and> ExpressionConstantRefBase_init (reference_env\<lparr>isDebug := False\<rparr>) EXPRESSION_CONSTANT_STR_REF
      (PStr (replicate 1001 (CHR ''a''))) (SourceCodeReference ''m.py:1'') False []
     = Inr (\<lparr>kind = EXPRESSION_CONSTANT_STR_REF, constant_value = PStr (replicate 1001 (CHR ''a'')),
             source_ref = SourceCodeReference ''m.py:1'', user_provided = False\<rparr>, [])"
  by (simp add: ExpressionConstantRefBase_init_def env_defs)

text \<open>
  Claim C7. \<^verbatim>\<open>computeExpression\<close> of a \<^verbatim>\<open>bytearray\<close> constructor node returns the node
  itself with no tag, whatever its operand is; the constructor keeps a given operand, and
  puts the constant node of \<^verbatim>\<open>b""\<close> in the value slot when none is given.
\<close>

theorem bytearray_never_folds:
  "ExpressionBuiltinBytearray_computeExpression val sr collection =
     (ExpressionBuiltinBytearray val sr, None, None)
   \<and> ExpressionBuiltinBytearray_init e (Some val) sr log = Inr (ExpressionBuiltinBytearray val sr, log)
   \<and> (isConstant e (bytes_literal e []) \<longrightarrow>
        ExpressionBuiltinBytearray_init e None sr log =
          Inr (ExpressionBuiltinBytearray
                 (ExpressionConstantRef
                    \<lparr>kind = (if python_version e < 300 then EXPRESSION_CONSTANT_STR_REF
                              else EXPRESSION_CONSTANT_BYTES_REF),
                     constant_value = (if python_version e < 300 then PStr [] else PBytes []),
                     source_ref = sr, user_provided = False\<rparr>) sr,
               log))"
proof -
  have "isConstant e (bytes_literal e []) \<Longrightarrow>
        makeConstantRefNode e (bytes_literal e []) sr False log =
          Inr (\<lparr>kind = (if python_version e < 300 then EXPRESSION_CONSTANT_STR_REF
                              else EXPRESSION_CONSTANT_BYTES_REF),
                 constant_value = bytes_literal e [], source_ref = sr, user_provided = False\<rparr>, log)"
    using factory_eq [OF _ kind_for_empty_bytes, where e = e and sr = sr and up = False and log = log]
    by (simp add: too_large_empty_bytes)
  then show ?thesis
    by (auto simp: ExpressionBuiltinBytearray_computeExpression_def
          ExpressionBuiltinBytearray_init_def bytes_literal_def)
qed

theorem bytearray_never_folds_witness:
  "ExpressionBuiltinBytearray_init reference_env None (SourceCodeReference ''m.py:1'') [] =
     Inr (ExpressionBuiltinBytearray
            (ExpressionConstantRef
               \<lparr>kind = EXPRESSION_CONSTANT_STR_REF, constant_value = PStr [],
                source_ref = SourceCodeReference ''m.py:1'', user_provided = False\<rparr>)
            (SourceCodeReference ''m.py:1''), [])"
  using bytearray_never_folds [where e = reference_env
          and sr = "SourceCodeReference ''m.py:1''" and log = "[]"]
  by (simp add: env_defs bytes_literal_def)

text \<open>
  Claim C8. A constant node has no side effects, extracts none, and
  \<^verbatim>\<open>computeExpression\<close> returns the node itself with no tag.
\<close>

theorem constant_is_fixed_point:
  "mayHaveSideEffects self = False
   \<and> extractSideEffects self = []
   \<and> computeExpression self collection = (ExpressionConstantRef self, None, None)"
  by (simp add: mayHaveSideEffects_def extractSideEffects_def computeExpression_def)

text \<open>
  Claim C10. \<^verbatim>\<open>computeExpressionCall\<close> on a constant node returns, for every call node
  and whatever the arguments are, the deferred raise of \<^verbatim>\<open>TypeError\<close> with the message
  \<^verbatim>\<open>'<type>' object is not callable\<close>, wrapped with the side effects that the call node
  extracts before the call, with tag \<open>new_raise\<close>; the collection is told that a
  \<^verbatim>\<open>TypeError\<close> may be raised.
\<close>

theorem computeExpressionCall_not_callable:
  "computeExpressionCall e self call_node call_args call_kw collection =
     ((wrapExpressionWithSideEffects e
         (makeRaiseExceptionReplacementExpression e (ExpressionConstantRef self) ''TypeError''
            ([CHR 0x27] @ type_name (type_of (constant_value self)) @ [CHR 0x27]
               @ '' object is not callable''))
         call_node (extractPreCallSideEffects e call_node),
       Some new_raise, Some ''Predicted call of constant value to exception raise.''),
      collection\<lparr>raise_exits := raise_exits collection @ [TypeError]\<rparr>)
   \<and> computeExpressionCall e self call_node call_args call_kw collection =
       computeExpressionCall e self call_node [] [] collection"
  by (simp add: computeExpressionCall_def onExceptionRaiseExit_def Let_def)

end
